theory Spec2Isabelle
  imports Main "HOL-Library.Word"
begin

section \<open>The object writer of the repository (package object, writer)\<close>

text \<open>
  A shallow embedding of \<^verbatim>\<open>objectWriter\<close>: its methods \<^verbatim>\<open>initBuffer\<close>, \<^verbatim>\<open>Close\<close>,
  \<^verbatim>\<open>Write\<close>, \<^verbatim>\<open>flushBuffer\<close>, \<^verbatim>\<open>Result\<close> and the function
  \<^verbatim>\<open>maybeCompressedContentBytes\<close>. The writer's own fields are a record. Everything the
  writer reaches through \<^verbatim>\<open>w.om\<close> (content manager, buffer pool) is shared, mutable and
  outside the writer, so it is one explicit state \<open>'x\<close> that every method takes and returns.
  The collaborators are interfaces in the source; their operations are the fields of the
  record \<open>Manager\<close>, so every theorem below holds for every implementation of them.
\<close>

subsection \<open>Data\<close>

type_synonym byte = "8 word"

text \<open>\<^verbatim>\<open>int64\<close>: addition wraps.\<close>
type_synonym int64 = "64 word"

text \<open>\<^verbatim>\<open>content.ID\<close> and \<^verbatim>\<open>object.ID\<close> are string types; the writer returns the literal
  \<^verbatim>\<open>""\<close> as the identifier next to an error, and the zero value of an ID is \<^verbatim>\<open>""\<close>.\<close>
type_synonym ContentID = string
type_synonym ID = string

text \<open>Errors of \<^verbatim>\<open>github.com/pkg/errors\<close>: a base error of a collaborator, or an error
  wrapped by \<^verbatim>\<open>errors.Wrap\<close> / \<^verbatim>\<open>errors.Wrapf\<close> with its format string and arguments.\<close>
datatype fmtArg = ArgInt nat | ArgStr string

datatype error = New string | Wrapf error string "fmtArg list"

definition Wrap :: "error \<Rightarrow> string \<Rightarrow> error" where
  "Wrap err msg = Wrapf err msg []"

text \<open>\<^verbatim>\<open>errors.Cause\<close>: the innermost error, the kind of failure that was wrapped.\<close>
fun Cause :: "error \<Rightarrow> error" where
  "Cause (New s) = New s"
| "Cause (Wrapf e msg args) = Cause e"

record indirectObjectEntry =
  Start :: int64
  Length :: int64
  Object :: ID

record indirectObject =
  StreamID :: string
  Entries :: "indirectObjectEntry list"

text \<open>\<^verbatim>\<open>compression.Compressor\<close>: \<^verbatim>\<open>Compress(output, input)\<close> appends to the output buffer
  or fails. A configured compressor is the function from the input to the bytes it appends.\<close>
type_synonym Compressor = "byte list \<Rightarrow> error + byte list"

text \<open>The fields of \<^verbatim>\<open>objectWriter\<close>. \<open>'b\<close> is \<^verbatim>\<open>buf.Buf\<close>, the handle of a pooled
  buffer; \<open>buffer\<close> is the contents of the \<^verbatim>\<open>bytes.Buffer\<close>; a nil interface is \<open>None\<close>.\<close>
record ('sp, 'b) objectWriter =
  compressor :: "Compressor option"
  prefix :: ContentID
  buf :: 'b
  buffer :: "byte list"
  totalLength :: int64
  currentPosition :: int64
  indirectIndex :: "indirectObjectEntry list"
  description :: string
  splitter :: "'sp option"

text \<open>The collaborators: \<^verbatim>\<open>om.contentMgr.WriteContent\<close>, \<^verbatim>\<open>om.bufferPool.Allocate\<close>,
  \<^verbatim>\<open>Buf.Release\<close>, \<^verbatim>\<open>om.newSplitter\<close>, the three methods of \<^verbatim>\<open>splitter.Splitter\<close>, and
  the marshalling step of \<^verbatim>\<open>json.Encoder.Encode\<close> on an \<^verbatim>\<open>indirectObject\<close> (the struct and
  its field tags are declared elsewhere). \<open>'x\<close> is the state shared through \<^verbatim>\<open>w.om\<close>,
  \<open>'sp\<close> the state of a splitter.\<close>
record ('sp, 'b, 'x) Manager =
  WriteContent :: "byte list \<Rightarrow> ContentID \<Rightarrow> 'x \<Rightarrow> (error + ContentID) \<times> 'x"
  Allocate :: "nat \<Rightarrow> 'x \<Rightarrow> 'b \<times> 'x"
  Release :: "'b \<Rightarrow> 'x \<Rightarrow> 'b \<times> 'x"
  newSplitter :: 'sp
  ShouldSplit :: "'sp \<Rightarrow> byte \<Rightarrow> bool \<times> 'sp"
  MaxSegmentSize :: "'sp \<Rightarrow> nat"
  SplitterClose :: "'sp \<Rightarrow> 'sp"
  jsonMarshal :: "indirectObject \<Rightarrow> error + byte list"

text \<open>What a call does: it returns, it panics (a method called on a nil interface), or
  the nesting of \<^verbatim>\<open>Result\<close> exceeds the fuel it was given.\<close>
datatype 'a outcome = Return 'a | Panic | OutOfFuel

subsection \<open>Object identifiers\<close>

text \<open>Modelled from the spec: the three constructors \<^verbatim>\<open>DirectObjectID\<close>, \<^verbatim>\<open>Compressed\<close> and
  \<^verbatim>\<open>IndirectObjectID\<close> are not in the sources at hand. The textual scheme the spec gives as
  normative: a direct identifier is the content identifier itself, a compressed one is
  \<^verbatim>\<open>Z\<close> followed by the direct identifier, an indirect one is \<^verbatim>\<open>I\<close> followed by the inner
  identifier.\<close>
definition DirectObjectID :: "ContentID \<Rightarrow> ID" where
  "DirectObjectID contentID = contentID"

definition Compressed :: "ID \<Rightarrow> ID" where
  "Compressed objectID = ''Z'' @ objectID"

definition IndirectObjectID :: "ID \<Rightarrow> ID" where
  "IndirectObjectID indirectID = ''I'' @ indirectID"

subsection \<open>The methods\<close>

text \<open>\<^verbatim>\<open>bytes.Buffer.WriteByte\<close>: appends; the error it returns is always nil.\<close>
definition WriteByte :: "byte list \<Rightarrow> byte \<Rightarrow> error option \<times> byte list" where
  "WriteByte b d = (None, b @ [d])"

definition initBuffer ::
  "('sp, 'b, 'x) Manager \<Rightarrow> ('sp, 'b) objectWriter \<Rightarrow> 'x \<Rightarrow> (('sp, 'b) objectWriter \<times> 'x) outcome" where
  "initBuffer om w x =
     (case splitter w of
        None \<Rightarrow> Panic
      | Some sp \<Rightarrow>
          (case Allocate om (MaxSegmentSize om sp) x of
             (b, x') \<Rightarrow> Return (w\<lparr>buf := b, buffer := []\<rparr>, x')))"

definition Close ::
  "('sp, 'b, 'x) Manager \<Rightarrow> ('sp, 'b) objectWriter \<Rightarrow> 'x \<Rightarrow> error option \<times> ('sp, 'b) objectWriter \<times> 'x" where
  "Close om w x =
     (case Release om (buf w) x of
        (b, x') \<Rightarrow>
          (None,
           (case splitter w of
              None \<Rightarrow> w\<lparr>buf := b\<rparr>
            | Some sp \<Rightarrow> w\<lparr>buf := b, splitter := Some (SplitterClose om sp)\<rparr>),
           x'))"

definition maybeCompressedContentBytes ::
  "Compressor option \<Rightarrow> byte list \<Rightarrow> byte list \<Rightarrow> byte list \<times> bool \<times> error option" where
  "maybeCompressedContentBytes compr output input =
     (case compr of
        None \<Rightarrow> (input, False, None)
      | Some c \<Rightarrow>
          (case c input of
             Inl err \<Rightarrow> ([], False, Some (Wrap err ''compression error''))
           | Inr out \<Rightarrow>
               if length (output @ out) < length input then (output @ out, True, None)
               else (input, False, None)))"

definition flushBuffer ::
  "('sp, 'b, 'x) Manager \<Rightarrow> ('sp, 'b) objectWriter \<Rightarrow> 'x \<Rightarrow> error option \<times> ('sp, 'b) objectWriter \<times> 'x" where
  "flushBuffer om w x =
     (let len = length (buffer w);
          chunkID = length (indirectIndex w);
          w1 = w\<lparr>indirectIndex := indirectIndex w @ [\<lparr>Start = currentPosition w, Length = of_nat len, Object = []\<rparr>],
                 currentPosition := currentPosition w + of_nat len\<rparr>
      in case Allocate om len x of
        (b, x1) \<Rightarrow>
          (case maybeCompressedContentBytes (compressor w1) [] (buffer w1) of
             (contentBytes, isCompressed, Some err) \<Rightarrow>
               (Some (Wrap err ''unable to prepare content bytes''), w1, snd (Release om b x1))
           | (contentBytes, isCompressed, None) \<Rightarrow>
               (case WriteContent om contentBytes (prefix w1) x1 of
                  (r, x2) \<Rightarrow>
                    (let w2 = w1\<lparr>buffer := []\<rparr> in
                     case r of
                       Inl err \<Rightarrow>
                         (Some (Wrapf err ''error when flushing chunk %d of %s''
                                  [ArgInt chunkID, ArgStr (description w2)]),
                          w2, snd (Release om b x2))
                     | Inr contentID \<Rightarrow>
                         (let oid = DirectObjectID contentID;
                              oid' = (if isCompressed then Compressed oid else oid)
                          in (None,
                              w2\<lparr>indirectIndex :=
                                   (indirectIndex w2)[chunkID := (indirectIndex w2 ! chunkID)\<lparr>Object := oid'\<rparr>]\<rparr>,
                              snd (Release om b x2)))))))"

text \<open>The loop of \<^verbatim>\<open>Write\<close> over the bytes of the slice.\<close>
fun writeLoop ::
  "('sp, 'b, 'x) Manager \<Rightarrow> ('sp, 'b) objectWriter \<Rightarrow> 'x \<Rightarrow> byte list
    \<Rightarrow> (error option \<times> ('sp, 'b) objectWriter \<times> 'x) outcome" where
  "writeLoop om w x [] = Return (None, w, x)"
| "writeLoop om w x (d # ds) =
     (case WriteByte (buffer w) d of
        (Some err, b') \<Rightarrow> Return (Some err, w\<lparr>buffer := b'\<rparr>, x)
      | (None, b') \<Rightarrow>
          (case splitter w of
             None \<Rightarrow> Panic
           | Some sp \<Rightarrow>
               (case ShouldSplit om sp d of
                  (doSplit, sp') \<Rightarrow>
                    (let w1 = w\<lparr>buffer := b', splitter := Some sp'\<rparr> in
                     if doSplit then
                       (case flushBuffer om w1 x of
                          (Some err, w2, x2) \<Rightarrow> Return (Some err, w2, x2)
                        | (None, w2, x2) \<Rightarrow> writeLoop om w2 x2 ds)
                     else writeLoop om w1 x ds))))"

definition Write ::
  "('sp, 'b, 'x) Manager \<Rightarrow> ('sp, 'b) objectWriter \<Rightarrow> 'x \<Rightarrow> byte list
    \<Rightarrow> ((nat \<times> error option) \<times> ('sp, 'b) objectWriter \<times> 'x) outcome" where
  "Write om w x data =
     (let dataLen = length data;
          w0 = w\<lparr>totalLength := totalLength w + of_nat dataLen\<rparr>
      in case writeLoop om w0 x data of
           Return (Some err, w', x') \<Rightarrow> Return ((0, Some err), w', x')
         | Return (None, w', x') \<Rightarrow> Return ((dataLen, None), w', x')
         | Panic \<Rightarrow> Panic
         | OutOfFuel \<Rightarrow> OutOfFuel)"

text \<open>\<^verbatim>\<open>json.NewEncoder(iw).Encode(ind)\<close>: marshal the document, then hand the bytes to the
  writer in one \<^verbatim>\<open>Write\<close>; the encoder returns the error of either step.\<close>
definition Encode ::
  "('sp, 'b, 'x) Manager \<Rightarrow> ('sp, 'b) objectWriter \<Rightarrow> 'x \<Rightarrow> indirectObject
    \<Rightarrow> (error option \<times> ('sp, 'b) objectWriter \<times> 'x) outcome" where
  "Encode om iw x ind =
     (case jsonMarshal om ind of
        Inl err \<Rightarrow> Return (Some err, iw, x)
      | Inr bs \<Rightarrow>
          (case Write om iw x bs of
             Return ((n, err), iw', x') \<Rightarrow> Return (err, iw', x')
           | Panic \<Rightarrow> Panic
           | OutOfFuel \<Rightarrow> OutOfFuel))"

text \<open>The struct literal of the writer that \<^verbatim>\<open>Result\<close> builds for the index document;
  \<^verbatim>\<open>buf\<close> keeps the outer writer's handle only until \<^verbatim>\<open>initBuffer\<close> replaces it (the
  literal leaves the field at its zero value).\<close>
definition indexWriter ::
  "('sp, 'b, 'x) Manager \<Rightarrow> ('sp, 'b) objectWriter \<Rightarrow> ('sp, 'b) objectWriter" where
  "indexWriter om w =
     \<lparr>compressor = None,
      prefix = prefix w,
      buf = buf w,
      buffer = [],
      totalLength = 0,
      currentPosition = 0,
      indirectIndex = [],
      description = ''LIST('' @ description w @ '')'',
      splitter = Some (newSplitter om)\<rparr>"

definition indexDocument :: "('sp, 'b) objectWriter \<Rightarrow> indirectObject" where
  "indexDocument w = \<lparr>StreamID = ''kopia:indirect'', Entries = indirectIndex w\<rparr>"

text \<open>The part of \<^verbatim>\<open>Result\<close> between \<^verbatim>\<open>defer iw.Close()\<close> and the return: encode the
  document into the nested writer and take its result. The first argument is
  \<^verbatim>\<open>iw.Result\<close> (\<^verbatim>\<open>Result\<close> itself, one level deeper).\<close>
definition writeIndex ::
  "(('sp, 'b) objectWriter \<Rightarrow> 'x \<Rightarrow> ((ID \<times> error option) \<times> ('sp, 'b) objectWriter \<times> 'x) outcome)
    \<Rightarrow> ('sp, 'b, 'x) Manager \<Rightarrow> ('sp, 'b) objectWriter \<Rightarrow> 'x \<Rightarrow> indirectObject
    \<Rightarrow> ((ID \<times> error option) \<times> ('sp, 'b) objectWriter \<times> 'x) outcome" where
  "writeIndex iwResult om iw x ind =
     (case Encode om iw x ind of
        Return (Some err, iw1, x1) \<Rightarrow>
          Return (([], Some (Wrap err ''unable to write indirect object index'')), iw1, x1)
      | Return (None, iw1, x1) \<Rightarrow>
          (case iwResult iw1 x1 of
             Return ((oid, Some err), iw2, x2) \<Rightarrow> Return (([], Some err), iw2, x2)
           | Return ((oid, None), iw2, x2) \<Rightarrow> Return ((IndirectObjectID oid, None), iw2, x2)
           | Panic \<Rightarrow> Panic
           | OutOfFuel \<Rightarrow> OutOfFuel)
      | Panic \<Rightarrow> Panic
      | OutOfFuel \<Rightarrow> OutOfFuel)"

text \<open>\<^verbatim>\<open>Result\<close>. It calls itself on the nested writer, whose index may again hold several
  entries, so the depth of the nesting is bounded by the fuel. The deferred
  \<^verbatim>\<open>iw.Close()\<close> runs on every return after it was registered; the nested writer is
  local, so of its \<^verbatim>\<open>Close\<close> only the effect on the shared state remains.\<close>
fun Result ::
  "nat \<Rightarrow> ('sp, 'b, 'x) Manager \<Rightarrow> ('sp, 'b) objectWriter \<Rightarrow> 'x
    \<Rightarrow> ((ID \<times> error option) \<times> ('sp, 'b) objectWriter \<times> 'x) outcome" where
  "Result 0 om w x = OutOfFuel"
| "Result (Suc n) om w x =
     (case (if buffer w \<noteq> [] \<or> indirectIndex w = [] then flushBuffer om w x else (None, w, x)) of
        (Some err, w1, x1) \<Rightarrow> Return (([], Some err), w1, x1)
      | (None, w1, x1) \<Rightarrow>
          if length (indirectIndex w1) = 1 then Return ((Object (indirectIndex w1 ! 0), None), w1, x1)
          else
            (case initBuffer om (indexWriter om w1) x1 of
               Return (iw, x2) \<Rightarrow>
                 (case writeIndex (Result n om) om iw x2 (indexDocument w1) of
                    Return (r, iw', x3) \<Rightarrow> Return (r, w1, snd (snd (Close om iw' x3)))
                  | Panic \<Rightarrow> Panic
                  | OutOfFuel \<Rightarrow> OutOfFuel)
             | Panic \<Rightarrow> Panic
             | OutOfFuel \<Rightarrow> OutOfFuel))"

declare Result.simps [simp del]


subsection \<open>Callers\<close>

text \<open>A caller that issues one \<^verbatim>\<open>Write\<close> per slice and goes on only while every call
  returns a nil error: \<open>Some\<close> of the final state when all of them succeeded.\<close>
fun writeAll ::
  "('sp, 'b, 'x) Manager \<Rightarrow> ('sp, 'b) objectWriter \<Rightarrow> 'x \<Rightarrow> byte list list
    \<Rightarrow> (('sp, 'b) objectWriter \<times> 'x) option" where
  "writeAll om w x [] = Some (w, x)"
| "writeAll om w x (d # ds) =
     (case Write om w x d of
        Return ((n, None), w', x') \<Rightarrow> writeAll om w' x' ds
      | Return ((n, Some err), w', x') \<Rightarrow> None
      | Panic \<Rightarrow> None
      | OutOfFuel \<Rightarrow> None)"


text \<open>The splitter, started in state \<open>sp\<close>, asks for no split on any byte of the
  slice.\<close>
fun neverSplits :: "('sp, 'b, 'x) Manager \<Rightarrow> 'sp \<Rightarrow> byte list \<Rightarrow> bool" where
  "neverSplits om sp [] = True"
| "neverSplits om sp (d # ds) =
     (case ShouldSplit om sp d of (doSplit, sp') \<Rightarrow> \<not> doSplit \<and> neverSplits om sp' ds)"

text \<open>Two writers agree on everything that decides what they write: compressor, prefix,
  splitter, buffered bytes, position and index. The buffer handle, the description (used
  in error messages only) and the total-length counter are left out.\<close>
definition sameWriter :: "('sp, 'b) objectWriter \<Rightarrow> ('sp, 'b) objectWriter \<Rightarrow> bool" where
  "sameWriter wa wb \<longleftrightarrow>
     compressor wa = compressor wb \<and> prefix wa = prefix wb \<and> buffer wa = buffer wb \<and>
     currentPosition wa = currentPosition wb \<and> indirectIndex wa = indirectIndex wb \<and>
     splitter wa = splitter wb"

text \<open>A flush performed by the loop of \<^verbatim>\<open>Write\<close> fails: the loop, started from \<open>w\<close>
  and \<open>x\<close>, has consumed the bytes \<open>pre\<close> without an error, it appends the next byte
  \<open>d\<close>, the splitter asks for a split, and the flush of the chunk returns \<open>err\<close> and
  leaves \<open>w'\<close> and \<open>x'\<close>.\<close>
definition flushFailsAt ::
  "('sp, 'b, 'x) Manager \<Rightarrow> ('sp, 'b) objectWriter \<Rightarrow> 'x \<Rightarrow> byte list \<Rightarrow> byte \<Rightarrow> error
    \<Rightarrow> ('sp, 'b) objectWriter \<Rightarrow> 'x \<Rightarrow> bool" where
  "flushFailsAt om w x pre d err w' x' \<longleftrightarrow>
     (\<exists>wp xp sp.
        writeLoop om w x pre = Return (None, wp, xp) \<and> splitter wp = Some sp \<and>
        fst (ShouldSplit om sp d) \<and>
        flushBuffer om (wp\<lparr>buffer := buffer wp @ [d], splitter := Some (snd (ShouldSplit om sp d))\<rparr>) xp
          = (Some err, w', x'))"

subsection \<open>Concrete collaborators for the examples\<close>

text \<open>A pool that records every allocation and release, and whose \<^verbatim>\<open>Release\<close> does
  nothing on a handle already released; a content manager that records the payloads it is
  given, derives the identifier from prefix and payload, and fails on the calls whose
  numbers are listed in \<open>failing\<close>; a splitter that splits after a zero byte and after
  32 bytes, and counts the calls of its \<^verbatim>\<open>Close\<close>; a marshaller that emits the stream
  identifier followed by the number of entries.\<close>
datatype poolEvent = Allocated nat | Released nat

record testWorld =
  written :: "(byte list \<times> ContentID) list"
  failing :: "nat list"
  pool :: "poolEvent list"

definition testManager :: "(nat \<times> nat, nat option, testWorld) Manager" where
  "testManager =
     \<lparr>WriteContent = (\<lambda>payload pre x.
         (if length (written x) \<in> set (failing x) then Inl (New ''storage error'')
          else Inr (pre @ map (\<lambda>b. char_of (unat b)) payload),
          x\<lparr>written := written x @ [(payload, pre)]\<rparr>)),
      Allocate = (\<lambda>n x. (Some n, x\<lparr>pool := pool x @ [Allocated n]\<rparr>)),
      Release = (\<lambda>b x. case b of None \<Rightarrow> (None, x)
                          | Some n \<Rightarrow> (None, x\<lparr>pool := pool x @ [Released n]\<rparr>)),
      newSplitter = (0, 0),
      ShouldSplit = (\<lambda>(seen, closes) d.
         if d = 0 \<or> 32 \<le> Suc seen then (True, (0, closes)) else (False, (Suc seen, closes))),
      MaxSegmentSize = (\<lambda>sp. 32),
      SplitterClose = (\<lambda>(seen, closes). (seen, Suc closes)),
      jsonMarshal = (\<lambda>ind.
         Inr (map (\<lambda>c. of_nat (of_char c)) (StreamID ind) @ [of_nat (length (Entries ind))]))\<rparr>"

text \<open>A writer as it is right after construction, and the shared state at that moment
  (the accumulation buffer has been allocated).\<close>
definition testWriter :: "Compressor option \<Rightarrow> (nat \<times> nat, nat option) objectWriter" where
  "testWriter c =
     \<lparr>compressor = c, prefix = ''k'', buf = Some 32, buffer = [], totalLength = 0,
      currentPosition = 0, indirectIndex = [], description = ''file'', splitter = Some (0, 0)\<rparr>"

definition testWorld0 :: "nat list \<Rightarrow> testWorld" where
  "testWorld0 fs = \<lparr>written = [], failing = fs, pool = [Allocated 32]\<rparr>"

text \<open>A compressor whose output is always the same two bytes.\<close>
definition twoByteCompressor :: Compressor where
  "twoByteCompressor input = Inr [1, 2]"

text \<open>The same collaborators with a splitter whose \<^verbatim>\<open>Close\<close> sets a flag instead of
  counting, so that closing it twice is closing it once.\<close>
definition flaggingManager :: "(nat \<times> nat, nat option, testWorld) Manager" where
  "flaggingManager = testManager\<lparr>SplitterClose := (\<lambda>(seen, closes). (seen, 1))\<rparr>"

lemmas test_defs =
  testManager_def testWriter_def testWorld0_def twoByteCompressor_def
  Write_def flushBuffer_def WriteByte_def maybeCompressedContentBytes_def Let_def
  DirectObjectID_def Compressed_def IndirectObjectID_def char_of_def bit_0

section \<open>Properties\<close>

subsection \<open>What a flush changes\<close>

lemma flushBuffer_unchanged:
  "flushBuffer om w x = (r, w', x') \<Longrightarrow>
     compressor w' = compressor w \<and> prefix w' = prefix w \<and> buf w' = buf w \<and>
     totalLength w' = totalLength w \<and> description w' = description w \<and> splitter w' = splitter w"
  by (auto simp: flushBuffer_def Let_def split: prod.splits option.splits sum.splits)

lemma flushBuffer_position:
  "flushBuffer om w x = (r, w', x') \<Longrightarrow>
     currentPosition w' = currentPosition w + of_nat (length (buffer w))"
  by (auto simp: flushBuffer_def Let_def split: prod.splits option.splits sum.splits)

lemma flushBuffer_index:
  "flushBuffer om w x = (r, w', x') \<Longrightarrow>
     \<exists>oid. indirectIndex w' = indirectIndex w @
        [\<lparr>Start = currentPosition w, Length = of_nat (length (buffer w)), Object = oid\<rparr>]"
  by (auto simp: flushBuffer_def Let_def split: prod.splits option.splits sum.splits)

lemma flushBuffer_success_buffer:
  "flushBuffer om w x = (None, w', x') \<Longrightarrow> buffer w' = []"
  by (auto simp: flushBuffer_def Let_def split: prod.splits option.splits sum.splits)

subsection \<open>Shrink or skip\<close>

text \<open>
  Claim C4. A chunk is flushed by a writer with a compressor, the compressor returns
  \<open>out\<close> on the chunk, and the content manager accepts the payload it is handed and
  answers \<open>cid\<close>. Then the payload handed over is \<open>out\<close>, and the entry's identifier
  is \<open>Compressed (DirectObjectID cid)\<close>, exactly when \<open>out\<close> is strictly shorter than
  the chunk; when it is as long as the chunk or longer, the payload is the chunk itself and
  the identifier is \<open>DirectObjectID cid\<close>, which is not a compressed identifier.
\<close>
theorem flushBuffer_shrink_or_skip:
  assumes "compressor w = Some c" and "c (buffer w) = Inr out"
    and "Allocate om (length (buffer w)) x = (b, x1)"
    and "WriteContent om (if length out < length (buffer w) then out else buffer w) (prefix w) x1
           = (Inr cid, x2)"
  shows "maybeCompressedContentBytes (compressor w) [] (buffer w) =
           (if length out < length (buffer w) then (out, True, None) else (buffer w, False, None))
       \<and> flushBuffer om w x =
           (None,
            w\<lparr>buffer := [],
              currentPosition := currentPosition w + of_nat (length (buffer w)),
              indirectIndex := indirectIndex w @
                [\<lparr>Start = currentPosition w, Length = of_nat (length (buffer w)),
                  Object = (if length out < length (buffer w) then Compressed (DirectObjectID cid)
                            else DirectObjectID cid)\<rparr>]\<rparr>,
            snd (Release om b x2))
       \<and> Compressed (DirectObjectID cid) \<noteq> DirectObjectID cid"
  using assms
  by (cases "length out < length (buffer w)")
     (simp_all add: flushBuffer_def maybeCompressedContentBytes_def Let_def Compressed_def
        DirectObjectID_def)

theorem flushBuffer_shrink_or_skip_witness:
  "flushBuffer testManager ((testWriter (Some twoByteCompressor))\<lparr>buffer := [7, 7]\<rparr>) (testWorld0 []) =
     (None,
      (testWriter (Some twoByteCompressor))
        \<lparr>currentPosition := 2,
         indirectIndex :=
           [\<lparr>Start = 0, Length = 2, Object = DirectObjectID [CHR ''k'', CHR 0x07, CHR 0x07]\<rparr>]\<rparr>,
      \<lparr>written = [([7, 7], ''k'')], failing = [], pool = [Allocated 32, Allocated 2, Released 2]\<rparr>)
   \<and> flushBuffer testManager ((testWriter (Some twoByteCompressor))\<lparr>buffer := [7, 7, 7]\<rparr>) (testWorld0 []) =
     (None,
      (testWriter (Some twoByteCompressor))
        \<lparr>currentPosition := 3,
         indirectIndex :=
           [\<lparr>Start = 0, Length = 3,
             Object = Compressed (DirectObjectID [CHR ''k'', CHR 0x01, CHR 0x02])\<rparr>]\<rparr>,
      \<lparr>written = [([1, 2], ''k'')], failing = [], pool = [Allocated 32, Allocated 3, Released 3]\<rparr>)"
proof -
  let ?w2 = "(testWriter (Some twoByteCompressor))\<lparr>buffer := [7, 7]\<rparr>"
  let ?w3 = "(testWriter (Some twoByteCompressor))\<lparr>buffer := [7, 7, 7]\<rparr>"
  have c2: "compressor ?w2 = Some twoByteCompressor"
    and c3: "compressor ?w3 = Some twoByteCompressor"
    by (simp_all add: testWriter_def)
  have o2: "twoByteCompressor (buffer ?w2) = Inr [1, 2]"
    and o3: "twoByteCompressor (buffer ?w3) = Inr [1, 2]"
    by (simp_all add: twoByteCompressor_def)
  have a2: "Allocate testManager (length (buffer ?w2)) (testWorld0 []) =
              (Some 2, \<lparr>written = [], failing = [], pool = [Allocated 32, Allocated 2]\<rparr>)"
    and a3: "Allocate testManager (length (buffer ?w3)) (testWorld0 []) =
              (Some 3, \<lparr>written = [], failing = [], pool = [Allocated 32, Allocated 3]\<rparr>)"
    by (simp_all add: testManager_def testWorld0_def testWriter_def)
  have m2: "WriteContent testManager
              (if length [1, 2 :: byte] < length (buffer ?w2) then [1, 2] else buffer ?w2)
              (prefix ?w2) \<lparr>written = [], failing = [], pool = [Allocated 32, Allocated 2]\<rparr> =
              (Inr [CHR ''k'', CHR 0x07, CHR 0x07],
               \<lparr>written = [([7, 7], ''k'')], failing = [], pool = [Allocated 32, Allocated 2]\<rparr>)"
    by (simp add: testManager_def testWriter_def char_of_def bit_0)
  have m3: "WriteContent testManager
              (if length [1, 2 :: byte] < length (buffer ?w3) then [1, 2] else buffer ?w3)
              (prefix ?w3) \<lparr>written = [], failing = [], pool = [Allocated 32, Allocated 3]\<rparr> =
              (Inr [CHR ''k'', CHR 0x01, CHR 0x02],
               \<lparr>written = [([1, 2], ''k'')], failing = [], pool = [Allocated 32, Allocated 3]\<rparr>)"
    by (simp add: testManager_def testWriter_def char_of_def bit_0)
  show ?thesis
    using flushBuffer_shrink_or_skip [OF c2 o2 a2 m2] flushBuffer_shrink_or_skip [OF c3 o3 a3 m3]
    by (simp add: testManager_def testWriter_def)
qed

subsection \<open>The loop of Write\<close>

lemma writeLoop_step:
  "writeLoop om w x (d # ds) =
     (case splitter w of
        None \<Rightarrow> Panic
      | Some sp \<Rightarrow>
          (let w1 = w\<lparr>buffer := buffer w @ [d], splitter := Some (snd (ShouldSplit om sp d))\<rparr> in
           if fst (ShouldSplit om sp d) then
             (case flushBuffer om w1 x of
                (Some err, w2, x2) \<Rightarrow> Return (Some err, w2, x2)
              | (None, w2, x2) \<Rightarrow> writeLoop om w2 x2 ds)
           else writeLoop om w1 x ds))"
  by (simp add: WriteByte_def Let_def split: option.splits prod.splits)

lemma writeLoop_totalLength:
  "writeLoop om w x data = Return (r, w', x') \<Longrightarrow> totalLength w' = totalLength w"
proof (induction data arbitrary: w x)
  case Nil
  then show ?case by simp
next
  case (Cons d ds)
  from Cons.prems obtain sp where sp: "splitter w = Some sp"
    by (auto simp: writeLoop_step simp del: writeLoop.simps split: option.splits)
  let ?w1 = "w\<lparr>buffer := buffer w @ [d], splitter := Some (snd (ShouldSplit om sp d))\<rparr>"
  show ?case
  proof (cases "fst (ShouldSplit om sp d)")
    case False
    with Cons.prems sp have "writeLoop om ?w1 x ds = Return (r, w', x')"
      by (simp add: writeLoop_step Let_def del: writeLoop.simps)
    from Cons.IH [OF this] show ?thesis by simp
  next
    case True
    obtain e w2 x2 where f: "flushBuffer om ?w1 x = (e, w2, x2)"
      by (cases "flushBuffer om ?w1 x") auto
    have t2: "totalLength w2 = totalLength w"
      using flushBuffer_unchanged [OF f] by simp
    show ?thesis
    proof (cases e)
      case None
      with Cons.prems sp True f have "writeLoop om w2 x2 ds = Return (r, w', x')"
        by (simp add: writeLoop_step Let_def del: writeLoop.simps)
      from Cons.IH [OF this] t2 show ?thesis by simp
    next
      case (Some err)
      with Cons.prems sp True f have "w' = w2"
        by (simp add: writeLoop_step Let_def del: writeLoop.simps)
      with t2 show ?thesis by simp
    qed
  qed
qed

lemma writeLoop_error_position:
  "writeLoop om w x data = Return (Some err, w', x') \<Longrightarrow>
     \<exists>k. 1 \<le> k \<and> k \<le> length data \<and>
         currentPosition w' = currentPosition w + of_nat (length (buffer w) + k)"
proof (induction data arbitrary: w x)
  case Nil
  then show ?case by simp
next
  case (Cons d ds)
  from Cons.prems obtain sp where sp: "splitter w = Some sp"
    by (auto simp: writeLoop_step simp del: writeLoop.simps split: option.splits)
  let ?w1 = "w\<lparr>buffer := buffer w @ [d], splitter := Some (snd (ShouldSplit om sp d))\<rparr>"
  show ?case
  proof (cases "fst (ShouldSplit om sp d)")
    case False
    with Cons.prems sp have "writeLoop om ?w1 x ds = Return (Some err, w', x')"
      by (simp add: writeLoop_step Let_def del: writeLoop.simps)
    from Cons.IH [OF this] obtain k where
      "1 \<le> k" "k \<le> length ds" "currentPosition w' = currentPosition w + of_nat (length (buffer w) + 1 + k)"
      by auto
    then show ?thesis
      by (intro exI [of _ "Suc k"]) simp
  next
    case True
    obtain e w2 x2 where f: "flushBuffer om ?w1 x = (e, w2, x2)"
      by (cases "flushBuffer om ?w1 x") auto
    have p2: "currentPosition w2 = currentPosition w + of_nat (length (buffer w) + 1)"
      using flushBuffer_position [OF f] by simp
    show ?thesis
    proof (cases e)
      case None
      with Cons.prems sp True f have "writeLoop om w2 x2 ds = Return (Some err, w', x')"
        by (simp add: writeLoop_step Let_def del: writeLoop.simps)
      from Cons.IH [OF this] flushBuffer_success_buffer [of om ?w1 x w2 x2] f None
      obtain k where "1 \<le> k" "k \<le> length ds" "currentPosition w' = currentPosition w2 + of_nat k"
        by auto
      with p2 show ?thesis
        by (intro exI [of _ "Suc k"]) (simp add: algebra_simps)
    next
      case (Some err')
      with Cons.prems sp True f have "w' = w2"
        by (simp add: writeLoop_step Let_def del: writeLoop.simps)
      with p2 show ?thesis
        by (intro exI [of _ 1]) simp
    qed
  qed
qed

text \<open>
  Claim C9. \<^verbatim>\<open>Write\<close> adds the length of the whole slice to the total-length counter
  before the loop over the bytes starts, and nothing in the loop touches the counter. So
  whenever the call returns, the counter has advanced by the whole slice; on success the
  count returned is the slice's length, and on an error it is 0 although at least one byte
  of the slice (\<open>k\<close> of them) had been appended and is accounted for in the position of
  the next chunk. (\<^verbatim>\<open>bytes.Buffer.WriteByte\<close> never returns an error, so the error is that
  of a chunk flush.)
\<close>
theorem Write_counts_whole_slice:
  assumes "Write om w x data = Return ((n, err), w', x')"
  shows "totalLength w' = totalLength w + of_nat (length data)
       \<and> (err = None \<longrightarrow> n = length data)
       \<and> (err \<noteq> None \<longrightarrow> n = 0 \<and>
            (\<exists>k. 1 \<le> k \<and> k \<le> length data \<and>
                 currentPosition w' = currentPosition w + of_nat (length (buffer w) + k)))"
proof -
  let ?w0 = "w\<lparr>totalLength := totalLength w + of_nat (length data)\<rparr>"
  from assms obtain r where r: "writeLoop om ?w0 x data = Return (r, w', x')"
    by (auto simp: Write_def Let_def split: outcome.splits option.splits)
  from writeLoop_totalLength [OF r] have t: "totalLength w' = totalLength w + of_nat (length data)"
    by simp
  show ?thesis
  proof (cases r)
    case None
    with r assms t show ?thesis by (simp add: Write_def Let_def)
  next
    case (Some e)
    with r assms have ne: "n = 0" "err = Some e" by (simp_all add: Write_def Let_def)
    from writeLoop_error_position [of om ?w0 x data e w' x'] r Some
    have "\<exists>k. 1 \<le> k \<and> k \<le> length data \<and>
            currentPosition w' = currentPosition w + of_nat (length (buffer w) + k)" by simp
    with ne t show ?thesis by simp
  qed
qed

theorem Write_counts_whole_slice_witness:
  "Write testManager (testWriter None) (testWorld0 [0]) [97, 0, 98, 99, 0, 100] =
     Return ((0, Some (Wrapf (New ''storage error'') ''error when flushing chunk %d of %s''
                        [ArgInt 0, ArgStr ''file''])),
             (testWriter None)\<lparr>totalLength := 6, currentPosition := 2,
                indirectIndex := [\<lparr>Start = 0, Length = 2, Object = []\<rparr>]\<rparr>,
             \<lparr>written = [([97, 0], ''k'')], failing = [0],
              pool = [Allocated 32, Allocated 2, Released 2]\<rparr>)
   \<and> totalLength ((testWriter None)\<lparr>totalLength := 6, currentPosition := 2,
                indirectIndex := [\<lparr>Start = 0, Length = 2, Object = []\<rparr>]\<rparr>)
       = totalLength (testWriter None) + of_nat (length [97, 0, 98, 99, 0, 100 :: byte])"
proof -
  have h: "Write testManager (testWriter None) (testWorld0 [0]) [97, 0, 98, 99, 0, 100] =
     Return ((0, Some (Wrapf (New ''storage error'') ''error when flushing chunk %d of %s''
                        [ArgInt 0, ArgStr ''file''])),
             (testWriter None)\<lparr>totalLength := 6, currentPosition := 2,
                indirectIndex := [\<lparr>Start = 0, Length = 2, Object = []\<rparr>]\<rparr>,
             \<lparr>written = [([97, 0], ''k'')], failing = [0],
              pool = [Allocated 32, Allocated 2, Released 2]\<rparr>)"
    by (simp add: test_defs)
  from Write_counts_whole_slice [OF h] h show ?thesis
    by simp
qed

subsection \<open>A flush that the content manager rejects\<close>

lemma Result_single_entry:
  "buffer w = [] \<Longrightarrow> length (indirectIndex w) = 1 \<Longrightarrow>
     Result (Suc n) om w x = Return ((Object (indirectIndex w ! 0), None), w, x)"
  by (cases "indirectIndex w") (simp_all add: Result.simps)

text \<open>
  Claim C10. A chunk flush whose payload the content manager rejects with \<open>e\<close> returns
  \<open>e\<close> wrapped with the chunk number and the description; the accumulation buffer has
  been reset all the same and the entry appended for the chunk keeps the empty identifier.
  When that entry is the only one of the index, a following \<^verbatim>\<open>Result\<close> does not flush
  again (it changes neither the writer nor the shared state) and returns the empty
  identifier with a nil error.
\<close>
theorem flushBuffer_content_error_then_Result:
  assumes "maybeCompressedContentBytes (compressor w) [] (buffer w) = (payload, isCompressed, None)"
    and "Allocate om (length (buffer w)) x = (b, x1)"
    and "WriteContent om payload (prefix w) x1 = (Inl e, x2)"
    and "flushBuffer om w x = (r, w', x')"
  shows "r = Some (Wrapf e ''error when flushing chunk %d of %s''
                    [ArgInt (length (indirectIndex w)), ArgStr (description w)])
       \<and> buffer w' = []
       \<and> indirectIndex w' = indirectIndex w @
            [\<lparr>Start = currentPosition w, Length = of_nat (length (buffer w)), Object = []\<rparr>]
       \<and> (indirectIndex w = [] \<longrightarrow> Result (Suc n) om w' x' = Return (([], None), w', x'))"
proof -
  from assms have r: "r = Some (Wrapf e ''error when flushing chunk %d of %s''
                    [ArgInt (length (indirectIndex w)), ArgStr (description w)])"
    and b: "buffer w' = []"
    and i: "indirectIndex w' = indirectIndex w @
            [\<lparr>Start = currentPosition w, Length = of_nat (length (buffer w)), Object = []\<rparr>]"
    by (auto simp: flushBuffer_def Let_def)
  have "Result (Suc n) om w' x' = Return (([], None), w', x')" if "indirectIndex w = []"
    using Result_single_entry [of w' n om x'] b i that by simp
  with r b i show ?thesis by blast
qed

theorem flushBuffer_content_error_then_Result_witness:
  "flushBuffer testManager ((testWriter None)\<lparr>buffer := [7, 7]\<rparr>) (testWorld0 [0]) =
     (Some (Wrapf (New ''storage error'') ''error when flushing chunk %d of %s''
              [ArgInt 0, ArgStr ''file'']),
      (testWriter None)\<lparr>currentPosition := 2,
         indirectIndex := [\<lparr>Start = 0, Length = 2, Object = []\<rparr>]\<rparr>,
      \<lparr>written = [([7, 7], ''k'')], failing = [0], pool = [Allocated 32, Allocated 2, Released 2]\<rparr>)
   \<and> Result (Suc 0) testManager
        ((testWriter None)\<lparr>currentPosition := 2,
           indirectIndex := [\<lparr>Start = 0, Length = 2, Object = []\<rparr>]\<rparr>)
        \<lparr>written = [([7, 7], ''k'')], failing = [0], pool = [Allocated 32, Allocated 2, Released 2]\<rparr>
      = Return (([], None),
          (testWriter None)\<lparr>currentPosition := 2,
             indirectIndex := [\<lparr>Start = 0, Length = 2, Object = []\<rparr>]\<rparr>,
          \<lparr>written = [([7, 7], ''k'')], failing = [0], pool = [Allocated 32, Allocated 2, Released 2]\<rparr>)"
proof -
  let ?w = "(testWriter None)\<lparr>buffer := [7, 7]\<rparr>"
  have m: "maybeCompressedContentBytes (compressor ?w) [] (buffer ?w) = ([7, 7], False, None)"
    by (simp add: test_defs)
  have a: "Allocate testManager (length (buffer ?w)) (testWorld0 [0]) =
             (Some 2, \<lparr>written = [], failing = [0], pool = [Allocated 32, Allocated 2]\<rparr>)"
    by (simp add: test_defs)
  have c: "WriteContent testManager [7, 7] (prefix ?w)
             \<lparr>written = [], failing = [0], pool = [Allocated 32, Allocated 2]\<rparr> =
             (Inl (New ''storage error''),
              \<lparr>written = [([7, 7], ''k'')], failing = [0], pool = [Allocated 32, Allocated 2]\<rparr>)"
    by (simp add: test_defs)
  have f: "flushBuffer testManager ?w (testWorld0 [0]) =
     (Some (Wrapf (New ''storage error'') ''error when flushing chunk %d of %s''
              [ArgInt 0, ArgStr ''file'']),
      (testWriter None)\<lparr>currentPosition := 2,
         indirectIndex := [\<lparr>Start = 0, Length = 2, Object = []\<rparr>]\<rparr>,
      \<lparr>written = [([7, 7], ''k'')], failing = [0], pool = [Allocated 32, Allocated 2, Released 2]\<rparr>)"
    by (simp add: test_defs)
  have i: "indirectIndex ?w = []" by (simp add: test_defs)
  from flushBuffer_content_error_then_Result [OF m a c f, of 0] i f show ?thesis
    by simp
qed

subsection \<open>The buffers a writer allocates\<close>

text \<open>
  Claim C5 says that the compression-output buffer of a flush is allocated with the size
  \<^verbatim>\<open>MaxSegmentSize()\<close> of the splitter. The source passes the length of the accumulation
  buffer instead. With a splitter whose maximal segment is 32 bytes, the flush of a chunk of
  three bytes asks the pool for three bytes.
\<close>
theorem flushBuffer_allocation_counterexample:
  "pool (snd (snd (flushBuffer testManager ((testWriter None)\<lparr>buffer := [7, 7, 7]\<rparr>)
                     \<lparr>written = [], failing = [], pool = []\<rparr>)))
     = [Allocated 3, Released 3]
   \<and> MaxSegmentSize testManager (0, 0) = 32
   \<and> Allocated (MaxSegmentSize testManager (0, 0)) \<notin>
       set (pool (snd (snd (flushBuffer testManager ((testWriter None)\<lparr>buffer := [7, 7, 7]\<rparr>)
                     \<lparr>written = [], failing = [], pool = []\<rparr>))))"
  by (simp add: test_defs)

text \<open>
  Claim C5, amended. The shared state after a flush is that after allocating a buffer of
  the chunk's length, handing the payload to the content manager (unless preparing the
  payload failed) and releasing that buffer. The size \<^verbatim>\<open>MaxSegmentSize()\<close> is the one
  \<^verbatim>\<open>initBuffer\<close> asks for, for the accumulation buffer.
\<close>
theorem flushBuffer_allocates_chunk_length:
  "snd (snd (flushBuffer om w x)) =
     (case Allocate om (length (buffer w)) x of
        (b, x1) \<Rightarrow>
          (case maybeCompressedContentBytes (compressor w) [] (buffer w) of
             (payload, isCompressed, None) \<Rightarrow>
               snd (Release om b (snd (WriteContent om payload (prefix w) x1)))
           | (payload, isCompressed, Some err) \<Rightarrow> snd (Release om b x1)))
   \<and> initBuffer om (w\<lparr>splitter := Some sp\<rparr>) x =
       (case Allocate om (MaxSegmentSize om sp) x of
          (b, x1) \<Rightarrow> Return (w\<lparr>splitter := Some sp, buf := b, buffer := []\<rparr>, x1))"
  by (auto simp: flushBuffer_def initBuffer_def Let_def split: prod.splits option.splits sum.splits)

subsection \<open>Closing a writer\<close>

text \<open>
  Claim C8 says that a second \<^verbatim>\<open>Close\<close> is a no-op and that the splitter is closed once.
  \<^verbatim>\<open>Close\<close> keeps no flag: the second call releases the buffer and closes the splitter
  again. With a splitter that counts the calls of its \<^verbatim>\<open>Close\<close>, the count is 2 after the
  second call and the writer differs from the writer after the first.
\<close>
theorem Close_twice_counterexample:
  "Close testManager (testWriter None) (testWorld0 []) =
     (None, (testWriter None)\<lparr>buf := None, splitter := Some (0, 1)\<rparr>,
      \<lparr>written = [], failing = [], pool = [Allocated 32, Released 32]\<rparr>)
   \<and> Close testManager ((testWriter None)\<lparr>buf := None, splitter := Some (0, 1)\<rparr>)
        \<lparr>written = [], failing = [], pool = [Allocated 32, Released 32]\<rparr> =
     (None, (testWriter None)\<lparr>buf := None, splitter := Some (0, 2)\<rparr>,
      \<lparr>written = [], failing = [], pool = [Allocated 32, Released 32]\<rparr>)
   \<and> (testWriter None)\<lparr>buf := None, splitter := Some (0, 2 :: nat)\<rparr>
       \<noteq> (testWriter None)\<lparr>buf := None, splitter := Some (0, 1)\<rparr>"
  by (simp add: Close_def test_defs)

text \<open>
  Claim C8, amended. Every \<^verbatim>\<open>Close\<close> returns nil, changes no field of the writer other
  than the buffer handle and the splitter, and calls \<^verbatim>\<open>Release\<close> on the handle and, when
  the splitter is not nil, \<^verbatim>\<open>Close\<close> on the splitter. When these two operations are
  idempotent, a second \<^verbatim>\<open>Close\<close> leaves the writer and the shared state as the first one
  left them.
\<close>
theorem Close_twice:
  "fst (Close om w x) = None
   \<and> (fst (snd (Close om w x)))\<lparr>buf := buf w, splitter := splitter w\<rparr> = w
   \<and> buf (fst (snd (Close om w x))) = fst (Release om (buf w) x)
   \<and> splitter (fst (snd (Close om w x))) = map_option (SplitterClose om) (splitter w)
   \<and> snd (snd (Close om w x)) = snd (Release om (buf w) x)
   \<and> ((\<forall>b y. Release om (fst (Release om b y)) (snd (Release om b y)) = Release om b y)
        \<and> (\<forall>sp. SplitterClose om (SplitterClose om sp) = SplitterClose om sp)
      \<longrightarrow> Close om (fst (snd (Close om w x))) (snd (snd (Close om w x))) = Close om w x)"
proof -
  obtain b x' where rel: "Release om (buf w) x = (b, x')"
    by (cases "Release om (buf w) x") auto
  have fields: "fst (Close om w x) = None"
    "(fst (snd (Close om w x)))\<lparr>buf := buf w, splitter := splitter w\<rparr> = w"
    "buf (fst (snd (Close om w x))) = fst (Release om (buf w) x)"
    "splitter (fst (snd (Close om w x))) = map_option (SplitterClose om) (splitter w)"
    "snd (snd (Close om w x)) = snd (Release om (buf w) x)"
    using rel by (cases "splitter w"; simp add: Close_def)+
  have twice: "Close om (fst (snd (Close om w x))) (snd (snd (Close om w x))) = Close om w x"
    if R: "\<forall>b y. Release om (fst (Release om b y)) (snd (Release om b y)) = Release om b y"
      and S: "\<forall>sp. SplitterClose om (SplitterClose om sp) = SplitterClose om sp"
  proof -
    from R [rule_format, of "buf w" x] rel have again: "Release om b x' = (b, x')" by simp
    show ?thesis
    proof (cases "splitter w")
      case None
      with rel again show ?thesis by (simp add: Close_def)
    next
      case (Some sp)
      with rel again S show ?thesis by (simp add: Close_def)
    qed
  qed
  from fields twice show ?thesis by blast
qed

theorem Close_twice_witness:
  "Close flaggingManager (testWriter None) (testWorld0 []) =
     (None, (testWriter None)\<lparr>buf := None, splitter := Some (0, 1)\<rparr>,
      \<lparr>written = [], failing = [], pool = [Allocated 32, Released 32]\<rparr>)
   \<and> Close flaggingManager ((testWriter None)\<lparr>buf := None, splitter := Some (0, 1)\<rparr>)
        \<lparr>written = [], failing = [], pool = [Allocated 32, Released 32]\<rparr> =
     (None, (testWriter None)\<lparr>buf := None, splitter := Some (0, 1)\<rparr>,
      \<lparr>written = [], failing = [], pool = [Allocated 32, Released 32]\<rparr>)"
proof -
  have r: "\<forall>b y. Release flaggingManager (fst (Release flaggingManager b y))
                   (snd (Release flaggingManager b y)) = Release flaggingManager b y"
    by (simp add: flaggingManager_def testManager_def split: option.splits)
  have s: "\<forall>sp. SplitterClose flaggingManager (SplitterClose flaggingManager sp)
                 = SplitterClose flaggingManager sp"
    by (simp add: flaggingManager_def testManager_def split: prod.splits)
  have c: "Close flaggingManager (testWriter None) (testWorld0 []) =
     (None, (testWriter None)\<lparr>buf := None, splitter := Some (0, 1)\<rparr>,
      \<lparr>written = [], failing = [], pool = [Allocated 32, Released 32]\<rparr>)"
    by (simp add: Close_def flaggingManager_def test_defs)
  have "Close flaggingManager
          (fst (snd (Close flaggingManager (testWriter None) (testWorld0 []))))
          (snd (snd (Close flaggingManager (testWriter None) (testWorld0 []))))
        = Close flaggingManager (testWriter None) (testWorld0 [])"
    using Close_twice [of flaggingManager "testWriter None" "testWorld0 []"] r s by blast
  then show ?thesis
    unfolding c by simp
qed

subsection \<open>Finalizing an object\<close>


lemma finalFlush_success:
  assumes "(if buffer w \<noteq> [] \<or> indirectIndex w = [] then flushBuffer om w x else (None, w, x))
             = (None, w1, x1)"
  shows "indirectIndex w1 \<noteq> [] \<and> buffer w1 = [] \<and> prefix w1 = prefix w"
proof (cases "buffer w \<noteq> [] \<or> indirectIndex w = []")
  case True
  with assms have f: "flushBuffer om w x = (None, w1, x1)" by simp
  from flushBuffer_index [OF f] flushBuffer_success_buffer [OF f] flushBuffer_unchanged [OF f]
  show ?thesis by auto
next
  case False
  with assms show ?thesis by auto
qed

lemma Result_Suc:
  assumes "(if buffer w \<noteq> [] \<or> indirectIndex w = [] then flushBuffer om w x else (None, w, x))
             = (e, w1, x1)"
  shows "Result (Suc n) om w x =
     (case e of
        Some err \<Rightarrow> Return (([], Some err), w1, x1)
      | None \<Rightarrow>
          if length (indirectIndex w1) = 1 then Return ((Object (indirectIndex w1 ! 0), None), w1, x1)
          else
            (case initBuffer om (indexWriter om w1) x1 of
               Return (iw, x2) \<Rightarrow>
                 (case writeIndex (Result n om) om iw x2 (indexDocument w1) of
                    Return (r, iw', x3) \<Rightarrow> Return (r, w1, snd (snd (Close om iw' x3)))
                  | Panic \<Rightarrow> Panic
                  | OutOfFuel \<Rightarrow> OutOfFuel)
             | Panic \<Rightarrow> Panic
             | OutOfFuel \<Rightarrow> OutOfFuel))"
  using assms by (cases e) (simp_all add: Result.simps del: One_nat_def)


text \<open>
  Claim C2. \<^verbatim>\<open>Result\<close> first flushes one more chunk when the accumulation buffer holds
  bytes or the index is still empty, and not otherwise; \<open>(e, w1, x1)\<close> is what this
  step leaves. When it succeeds the index is not empty and the buffer is empty. An error
  of the flush is returned with the empty identifier. With exactly one entry in the index
  \<^verbatim>\<open>Result\<close> returns that entry's identifier as it stands, for any fuel, and writes
  nothing more. Otherwise, when the nested writer built by \<open>indexWriter\<close> takes the
  encoded index document and its own \<^verbatim>\<open>Result\<close> returns \<open>r\<close>, the outer \<^verbatim>\<open>Result\<close>
  returns \<open>IndirectObjectID r\<close>. For the stream of zero bytes the single chunk is the
  empty payload and the identifier is the direct one of the content manager's answer.
\<close>
theorem Result_finalizes:
  assumes "(if buffer w \<noteq> [] \<or> indirectIndex w = [] then flushBuffer om w x else (None, w, x))
             = (e, w1, x1)"
  shows "(e = None \<longrightarrow> indirectIndex w1 \<noteq> [] \<and> buffer w1 = [])
   \<and> (\<forall>err. e = Some err \<longrightarrow> Result (Suc n) om w x = Return (([], Some err), w1, x1))
   \<and> (e = None \<and> length (indirectIndex w1) = 1 \<longrightarrow>
        Result (Suc n) om w x = Return ((Object (indirectIndex w1 ! 0), None), w1, x1))
   \<and> (\<forall>iw x2 iw1 x3 r iw2 x4.
        e = None \<and> length (indirectIndex w1) \<noteq> 1
        \<and> initBuffer om (indexWriter om w1) x1 = Return (iw, x2)
        \<and> Encode om iw x2 (indexDocument w1) = Return (None, iw1, x3)
        \<and> Result n om iw1 x3 = Return ((r, None), iw2, x4) \<longrightarrow>
        Result (Suc n) om w x =
          Return ((IndirectObjectID r, None), w1, snd (snd (Close om iw2 x4))))
   \<and> (\<forall>cid x2.
        buffer w = [] \<and> indirectIndex w = []
        \<and> (\<forall>c. compressor w = Some c \<longrightarrow> (\<exists>out. c [] = Inr out))
        \<and> WriteContent om [] (prefix w) (snd (Allocate om 0 x)) = (Inr cid, x2) \<longrightarrow>
        Result (Suc n) om w x =
          Return ((DirectObjectID cid, None),
                  w\<lparr>indirectIndex := [\<lparr>Start = currentPosition w, Length = 0,
                                         Object = DirectObjectID cid\<rparr>]\<rparr>,
                  snd (Release om (fst (Allocate om 0 x)) x2)))"
proof (intro conjI allI impI)
  assume "e = None"
  with finalFlush_success [of w om x w1 x1] assms
  show "indirectIndex w1 \<noteq> []" and "buffer w1 = []" by simp_all
next
  fix err assume "e = Some err"
  then show "Result (Suc n) om w x = Return (([], Some err), w1, x1)"
    by (simp add: Result_Suc [OF assms])
next
  assume "e = None \<and> length (indirectIndex w1) = 1"
  then show "Result (Suc n) om w x = Return ((Object (indirectIndex w1 ! 0), None), w1, x1)"
    by (simp add: Result_Suc [OF assms])
next
  fix iw x2 iw1 x3 r iw2 x4
  assume "e = None \<and> length (indirectIndex w1) \<noteq> 1
        \<and> initBuffer om (indexWriter om w1) x1 = Return (iw, x2)
        \<and> Encode om iw x2 (indexDocument w1) = Return (None, iw1, x3)
        \<and> Result n om iw1 x3 = Return ((r, None), iw2, x4)"
  then show "Result (Suc n) om w x =
          Return ((IndirectObjectID r, None), w1, snd (snd (Close om iw2 x4)))"
    by (simp add: Result_Suc [OF assms] writeIndex_def del: One_nat_def)
next
  fix cid x2
  assume a: "buffer w = [] \<and> indirectIndex w = []
        \<and> (\<forall>c. compressor w = Some c \<longrightarrow> (\<exists>out. c [] = Inr out))
        \<and> WriteContent om [] (prefix w) (snd (Allocate om 0 x)) = (Inr cid, x2)"
  obtain b xa where al: "Allocate om 0 x = (b, xa)" by (cases "Allocate om 0 x") auto
  have m: "maybeCompressedContentBytes (compressor w) [] [] = ([], False, None)"
    using a by (cases "compressor w") (auto simp: maybeCompressedContentBytes_def)
  let ?w' = "w\<lparr>indirectIndex := [\<lparr>Start = currentPosition w, Length = 0,
                                         Object = DirectObjectID cid\<rparr>]\<rparr>"
  have f: "flushBuffer om w x = (None, ?w', snd (Release om b x2))"
    using a al m by (simp add: flushBuffer_def Let_def)
  with a assms have "e = None" "w1 = ?w'" "x1 = snd (Release om b x2)" by simp_all
  then show "Result (Suc n) om w x =
          Return ((DirectObjectID cid, None), ?w', snd (Release om (fst (Allocate om 0 x)) x2))"
    using al by (simp add: Result_Suc [OF assms])
qed


theorem Result_finalizes_witness:
  "Result (Suc (Suc 0)) testManager
     ((testWriter None)\<lparr>buffer := [100], totalLength := 6, currentPosition := 5,
        indirectIndex := [\<lparr>Start = 0, Length = 2, Object = [CHR ''k'', CHR ''a'', CHR 0x00]\<rparr>,
                          \<lparr>Start = 2, Length = 3, Object = [CHR ''k'', CHR ''b'', CHR ''c'', CHR 0x00]\<rparr>],
        splitter := Some (1, 0)\<rparr>)
     \<lparr>written = [([97, 0], ''k''), ([98, 99, 0], ''k'')], failing = [],
      pool = [Allocated 32, Allocated 2, Released 2, Allocated 3, Released 3]\<rparr>
   = Return ((IndirectObjectID (''kkopia:indirect'' @ [CHR 0x03]), None),
       (testWriter None)\<lparr>totalLength := 6, currentPosition := 6,
        indirectIndex := [\<lparr>Start = 0, Length = 2, Object = [CHR ''k'', CHR ''a'', CHR 0x00]\<rparr>,
                          \<lparr>Start = 2, Length = 3, Object = [CHR ''k'', CHR ''b'', CHR ''c'', CHR 0x00]\<rparr>,
                          \<lparr>Start = 5, Length = 1, Object = ''kd''\<rparr>],
        splitter := Some (1, 0)\<rparr>,
       \<lparr>written = [([97, 0], ''k''), ([98, 99, 0], ''k''), ([100], ''k''),
                   ([107, 111, 112, 105, 97, 58, 105, 110, 100, 105, 114, 101, 99, 116, 3], ''k'')],
        failing = [],
        pool = [Allocated 32, Allocated 2, Released 2, Allocated 3, Released 3,
                Allocated 1, Released 1, Allocated 32, Allocated 15, Released 15, Released 32]\<rparr>)
   \<and> Result (Suc 0) testManager (testWriter None) (testWorld0 []) =
       Return ((DirectObjectID ''k'', None),
         (testWriter None)\<lparr>indirectIndex := [\<lparr>Start = 0, Length = 0, Object = DirectObjectID ''k''\<rparr>]\<rparr>,
         \<lparr>written = [([], ''k'')], failing = [], pool = [Allocated 32, Allocated 0, Released 0]\<rparr>)"
proof -
  let ?e0 = "\<lparr>Start = 0, Length = 2, Object = [CHR ''k'', CHR ''a'', CHR 0x00]\<rparr>"
  let ?e1 = "\<lparr>Start = 2, Length = 3, Object = [CHR ''k'', CHR ''b'', CHR ''c'', CHR 0x00]\<rparr>"
  let ?e2 = "\<lparr>Start = 5, Length = 1, Object = ''kd''\<rparr>"
  let ?doc = "[107, 111, 112, 105, 97, 58, 105, 110, 100, 105, 114, 101, 99, 116, 3] :: byte list"
  let ?W1 = "(testWriter None)\<lparr>buffer := [100], totalLength := 6, currentPosition := 5,
        indirectIndex := [?e0, ?e1], splitter := Some (1, 0)\<rparr>"
  let ?X1 = "\<lparr>written = [([97 :: byte, 0], ''k''), ([98, 99, 0], ''k'')], failing = [],
      pool = [Allocated 32, Allocated 2, Released 2, Allocated 3, Released 3]\<rparr>"
  let ?W2 = "(testWriter None)\<lparr>totalLength := 6, currentPosition := 6,
        indirectIndex := [?e0, ?e1, ?e2], splitter := Some (1, 0)\<rparr>"
  let ?X2 = "\<lparr>written = [([97 :: byte, 0], ''k''), ([98, 99, 0], ''k''), ([100], ''k'')], failing = [],
      pool = [Allocated 32, Allocated 2, Released 2, Allocated 3, Released 3,
              Allocated 1, Released 1]\<rparr>"
  let ?IW = "\<lparr>compressor = None, prefix = ''k'', buf = Some 32, buffer = [], totalLength = 0,
      currentPosition = 0, indirectIndex = [], description = ''LIST(file)'',
      splitter = Some (0 :: nat, 0 :: nat)\<rparr>"
  let ?X3 = "\<lparr>written = [([97 :: byte, 0], ''k''), ([98, 99, 0], ''k''), ([100], ''k'')], failing = [],
      pool = [Allocated 32, Allocated 2, Released 2, Allocated 3, Released 3,
              Allocated 1, Released 1, Allocated 32]\<rparr>"
  let ?IW1 = "?IW\<lparr>buffer := ?doc, totalLength := 15, splitter := Some (15, 0)\<rparr>"
  let ?IW2 = "?IW\<lparr>totalLength := 15, currentPosition := 15,
      indirectIndex := [\<lparr>Start = 0, Length = 15, Object = ''kkopia:indirect'' @ [CHR 0x03]\<rparr>],
      splitter := Some (15, 0)\<rparr>"
  let ?X4 = "\<lparr>written = [([97 :: byte, 0], ''k''), ([98, 99, 0], ''k''), ([100], ''k''), (?doc, ''k'')],
      failing = [],
      pool = [Allocated 32, Allocated 2, Released 2, Allocated 3, Released 3,
              Allocated 1, Released 1, Allocated 32, Allocated 15, Released 15]\<rparr>"
  have s: "(if buffer ?W1 \<noteq> [] \<or> indirectIndex ?W1 = [] then flushBuffer testManager ?W1 ?X1
            else (None, ?W1, ?X1)) = (None, ?W2, ?X2)"
    by (simp add: test_defs)
  have l: "length (indirectIndex ?W2) \<noteq> 1"
    by (simp add: test_defs)
  have i: "initBuffer testManager (indexWriter testManager ?W2) ?X2 = Return (?IW, ?X3)"
    by (simp add: test_defs initBuffer_def indexWriter_def)
  have d: "jsonMarshal testManager (indexDocument ?W2) = Inr ?doc"
    by (simp add: test_defs indexDocument_def)
  have w: "Write testManager ?IW ?X3 ?doc = Return ((15, None), ?IW1, ?X3)"
    by (simp add: test_defs)
  have e: "Encode testManager ?IW ?X3 (indexDocument ?W2) = Return (None, ?IW1, ?X3)"
    by (simp only: Encode_def d w sum.case outcome.case prod.case)
  have r: "Result (Suc 0) testManager ?IW1 ?X3 =
             Return ((''kkopia:indirect'' @ [CHR 0x03], None), ?IW2, ?X4)"
    by (simp add: Result.simps test_defs)
  have c: "snd (snd (Close testManager ?IW2 ?X4)) =
      \<lparr>written = [([97 :: byte, 0], ''k''), ([98, 99, 0], ''k''), ([100], ''k''), (?doc, ''k'')],
       failing = [],
       pool = [Allocated 32, Allocated 2, Released 2, Allocated 3, Released 3,
               Allocated 1, Released 1, Allocated 32, Allocated 15, Released 15, Released 32]\<rparr>"
    by (simp add: Close_def test_defs)
  have many: "Result (Suc (Suc 0)) testManager ?W1 ?X1 =
      Return ((IndirectObjectID (''kkopia:indirect'' @ [CHR 0x03]), None), ?W2,
              snd (snd (Close testManager ?IW2 ?X4)))"
    using Result_finalizes [OF s, of "Suc 0"] l i e r by blast
  let ?w0 = "testWriter None"
  have s0: "(if buffer ?w0 \<noteq> [] \<or> indirectIndex ?w0 = []
             then flushBuffer testManager ?w0 (testWorld0 []) else (None, ?w0, testWorld0 []))
            = (None,
               ?w0\<lparr>indirectIndex := [\<lparr>Start = 0, Length = 0, Object = DirectObjectID ''k''\<rparr>]\<rparr>,
               \<lparr>written = [([], ''k'')], failing = [], pool = [Allocated 32, Allocated 0, Released 0]\<rparr>)"
    by (simp add: test_defs)
  have h0: "buffer ?w0 = [] \<and> indirectIndex ?w0 = []
        \<and> (\<forall>c. compressor ?w0 = Some c \<longrightarrow> (\<exists>out. c [] = Inr out))
        \<and> WriteContent testManager [] (prefix ?w0) (snd (Allocate testManager 0 (testWorld0 [])))
            = (Inr ''k'', \<lparr>written = [([], ''k'')], failing = [], pool = [Allocated 32, Allocated 0]\<rparr>)"
    by (simp add: test_defs)
  have empty: "Result (Suc 0) testManager ?w0 (testWorld0 []) =
       Return ((DirectObjectID ''k'', None),
         ?w0\<lparr>indirectIndex := [\<lparr>Start = currentPosition ?w0, Length = 0, Object = DirectObjectID ''k''\<rparr>]\<rparr>,
         snd (Release testManager (fst (Allocate testManager 0 (testWorld0 [])))
                \<lparr>written = [([], ''k'')], failing = [], pool = [Allocated 32, Allocated 0]\<rparr>))"
    using Result_finalizes [OF s0, of 0] h0 by blast
  from many empty show ?thesis
    unfolding c by (simp add: test_defs)
qed

subsection \<open>The writer of the index document\<close>

text \<open>
  Claim C6. \<^verbatim>\<open>Result\<close> has done its final flush and the index holds more than one
  entry. The writer it builds for the index has no compressor, the prefix of the outer
  writer and a fresh splitter; the document it encodes carries the stream identifier
  \<^verbatim>\<open>kopia:indirect\<close> and the entries of the index. Whatever the nested write returns, an
  identifier or an error, \<^verbatim>\<open>Result\<close> returns it with the shared state that the nested
  writer's \<^verbatim>\<open>Close\<close> leaves, and \<^verbatim>\<open>Result\<close> returns in no other way.
\<close>
theorem Result_index_writer:
  assumes "(if buffer w \<noteq> [] \<or> indirectIndex w = [] then flushBuffer om w x else (None, w, x))
             = (None, w1, x1)"
    and "1 < length (indirectIndex w1)"
  shows "compressor (indexWriter om w1) = None
   \<and> prefix (indexWriter om w1) = prefix w
   \<and> splitter (indexWriter om w1) = Some (newSplitter om)
   \<and> StreamID (indexDocument w1) = ''kopia:indirect''
   \<and> Entries (indexDocument w1) = indirectIndex w1
   \<and> (\<exists>iw x2. initBuffer om (indexWriter om w1) x1 = Return (iw, x2)
        \<and> compressor iw = None \<and> prefix iw = prefix w
        \<and> (\<forall>r iw' x3. writeIndex (Result n om) om iw x2 (indexDocument w1) = Return (r, iw', x3)
              \<longrightarrow> Result (Suc n) om w x = Return (r, w1, snd (snd (Close om iw' x3))))
        \<and> (\<forall>res. Result (Suc n) om w x = Return res
              \<longrightarrow> (\<exists>r iw' x3. writeIndex (Result n om) om iw x2 (indexDocument w1)
                                   = Return (r, iw', x3)
                                 \<and> res = (r, w1, snd (snd (Close om iw' x3))))))"
proof -
  from finalFlush_success [OF assms(1)] have p: "prefix w1 = prefix w" by simp
  obtain b x2 where al: "Allocate om (MaxSegmentSize om (newSplitter om)) x1 = (b, x2)"
    by (cases "Allocate om (MaxSegmentSize om (newSplitter om)) x1") auto
  let ?iw = "(indexWriter om w1)\<lparr>buf := b, buffer := []\<rparr>"
  have ib: "initBuffer om (indexWriter om w1) x1 = Return (?iw, x2)"
    using al by (simp add: initBuffer_def indexWriter_def)
  have R: "Result (Suc n) om w x =
      (case writeIndex (Result n om) om ?iw x2 (indexDocument w1) of
         Return (r, iw', x3) \<Rightarrow> Return (r, w1, snd (snd (Close om iw' x3)))
       | Panic \<Rightarrow> Panic
       | OutOfFuel \<Rightarrow> OutOfFuel)"
    using assms(2) ib by (simp add: Result_Suc [OF assms(1)] del: One_nat_def)
  have fields: "compressor ?iw = None" "prefix ?iw = prefix w"
    using p by (simp_all add: indexWriter_def)
  have fwd: "\<forall>r iw' x3. writeIndex (Result n om) om ?iw x2 (indexDocument w1) = Return (r, iw', x3)
              \<longrightarrow> Result (Suc n) om w x = Return (r, w1, snd (snd (Close om iw' x3)))"
    by (simp add: R)
  have bwd: "\<forall>res. Result (Suc n) om w x = Return res
              \<longrightarrow> (\<exists>r iw' x3. writeIndex (Result n om) om ?iw x2 (indexDocument w1)
                                   = Return (r, iw', x3)
                                 \<and> res = (r, w1, snd (snd (Close om iw' x3))))"
    unfolding R by (auto split: outcome.splits)
  have "\<exists>iw x2. initBuffer om (indexWriter om w1) x1 = Return (iw, x2)
        \<and> compressor iw = None \<and> prefix iw = prefix w
        \<and> (\<forall>r iw' x3. writeIndex (Result n om) om iw x2 (indexDocument w1) = Return (r, iw', x3)
              \<longrightarrow> Result (Suc n) om w x = Return (r, w1, snd (snd (Close om iw' x3))))
        \<and> (\<forall>res. Result (Suc n) om w x = Return res
              \<longrightarrow> (\<exists>r iw' x3. writeIndex (Result n om) om iw x2 (indexDocument w1)
                                   = Return (r, iw', x3)
                                 \<and> res = (r, w1, snd (snd (Close om iw' x3)))))"
    using ib fields fwd bwd by blast
  then show ?thesis
    using p by (simp add: indexWriter_def indexDocument_def)
qed


theorem Result_index_writer_witness:
  "Result (Suc (Suc 0)) testManager
     ((testWriter None)\<lparr>buffer := [100], totalLength := 6, currentPosition := 5,
        indirectIndex := [\<lparr>Start = 0, Length = 2, Object = [CHR ''k'', CHR ''a'', CHR 0x00]\<rparr>,
                          \<lparr>Start = 2, Length = 3, Object = [CHR ''k'', CHR ''b'', CHR ''c'', CHR 0x00]\<rparr>],
        splitter := Some (1, 0)\<rparr>)
     \<lparr>written = [([97, 0], ''k''), ([98, 99, 0], ''k'')], failing = [3],
      pool = [Allocated 32, Allocated 2, Released 2, Allocated 3, Released 3]\<rparr>
   = Return (([], Some (Wrapf (New ''storage error'') ''error when flushing chunk %d of %s''
                          [ArgInt 0, ArgStr ''LIST(file)''])),
       (testWriter None)\<lparr>totalLength := 6, currentPosition := 6,
        indirectIndex := [\<lparr>Start = 0, Length = 2, Object = [CHR ''k'', CHR ''a'', CHR 0x00]\<rparr>,
                          \<lparr>Start = 2, Length = 3, Object = [CHR ''k'', CHR ''b'', CHR ''c'', CHR 0x00]\<rparr>,
                          \<lparr>Start = 5, Length = 1, Object = ''kd''\<rparr>],
        splitter := Some (1, 0)\<rparr>,
       \<lparr>written = [([97, 0], ''k''), ([98, 99, 0], ''k''), ([100], ''k''),
                   ([107, 111, 112, 105, 97, 58, 105, 110, 100, 105, 114, 101, 99, 116, 3], ''k'')],
        failing = [3],
        pool = [Allocated 32, Allocated 2, Released 2, Allocated 3, Released 3,
                Allocated 1, Released 1, Allocated 32, Allocated 15, Released 15, Released 32]\<rparr>)"
proof -
  let ?e0 = "\<lparr>Start = 0, Length = 2, Object = [CHR ''k'', CHR ''a'', CHR 0x00]\<rparr>"
  let ?e1 = "\<lparr>Start = 2, Length = 3, Object = [CHR ''k'', CHR ''b'', CHR ''c'', CHR 0x00]\<rparr>"
  let ?e2 = "\<lparr>Start = 5, Length = 1, Object = ''kd''\<rparr>"
  let ?doc = "[107, 111, 112, 105, 97, 58, 105, 110, 100, 105, 114, 101, 99, 116, 3] :: byte list"
  let ?err = "Wrapf (New ''storage error'') ''error when flushing chunk %d of %s''
                [ArgInt 0, ArgStr ''LIST(file)'']"
  let ?W1 = "(testWriter None)\<lparr>buffer := [100], totalLength := 6, currentPosition := 5,
        indirectIndex := [?e0, ?e1], splitter := Some (1, 0)\<rparr>"
  let ?X1 = "\<lparr>written = [([97 :: byte, 0], ''k''), ([98, 99, 0], ''k'')], failing = [3],
      pool = [Allocated 32, Allocated 2, Released 2, Allocated 3, Released 3]\<rparr>"
  let ?W2 = "(testWriter None)\<lparr>totalLength := 6, currentPosition := 6,
        indirectIndex := [?e0, ?e1, ?e2], splitter := Some (1, 0)\<rparr>"
  let ?X2 = "\<lparr>written = [([97 :: byte, 0], ''k''), ([98, 99, 0], ''k''), ([100], ''k'')], failing = [3],
      pool = [Allocated 32, Allocated 2, Released 2, Allocated 3, Released 3,
              Allocated 1, Released 1]\<rparr>"
  let ?IW = "\<lparr>compressor = None, prefix = ''k'', buf = Some 32, buffer = [], totalLength = 0,
      currentPosition = 0, indirectIndex = [], description = ''LIST(file)'',
      splitter = Some (0 :: nat, 0 :: nat)\<rparr>"
  let ?X3 = "\<lparr>written = [([97 :: byte, 0], ''k''), ([98, 99, 0], ''k''), ([100], ''k'')], failing = [3],
      pool = [Allocated 32, Allocated 2, Released 2, Allocated 3, Released 3,
              Allocated 1, Released 1, Allocated 32]\<rparr>"
  let ?IW1 = "?IW\<lparr>buffer := ?doc, totalLength := 15, splitter := Some (15, 0)\<rparr>"
  let ?IW2 = "?IW\<lparr>totalLength := 15, currentPosition := 15,
      indirectIndex := [\<lparr>Start = 0, Length = 15, Object = []\<rparr>], splitter := Some (15, 0)\<rparr>"
  let ?X4 = "\<lparr>written = [([97 :: byte, 0], ''k''), ([98, 99, 0], ''k''), ([100], ''k''), (?doc, ''k'')],
      failing = [3],
      pool = [Allocated 32, Allocated 2, Released 2, Allocated 3, Released 3,
              Allocated 1, Released 1, Allocated 32, Allocated 15, Released 15]\<rparr>"
  have s: "(if buffer ?W1 \<noteq> [] \<or> indirectIndex ?W1 = [] then flushBuffer testManager ?W1 ?X1
            else (None, ?W1, ?X1)) = (None, ?W2, ?X2)"
    by (simp add: test_defs)
  have l: "1 < length (indirectIndex ?W2)"
    by (simp add: test_defs)
  have i: "initBuffer testManager (indexWriter testManager ?W2) ?X2 = Return (?IW, ?X3)"
    by (simp add: test_defs initBuffer_def indexWriter_def)
  have d: "jsonMarshal testManager (indexDocument ?W2) = Inr ?doc"
    by (simp add: test_defs indexDocument_def)
  have w: "Write testManager ?IW ?X3 ?doc = Return ((15, None), ?IW1, ?X3)"
    by (simp add: test_defs)
  have e: "Encode testManager ?IW ?X3 (indexDocument ?W2) = Return (None, ?IW1, ?X3)"
    by (simp only: Encode_def d w sum.case outcome.case prod.case)
  have r: "Result (Suc 0) testManager ?IW1 ?X3 = Return (([], Some ?err), ?IW2, ?X4)"
    by (simp add: Result.simps test_defs)
  have wi: "writeIndex (Result (Suc 0) testManager) testManager ?IW ?X3 (indexDocument ?W2)
              = Return (([], Some ?err), ?IW2, ?X4)"
    by (simp only: writeIndex_def e r outcome.case prod.case option.case)
  have c: "snd (snd (Close testManager ?IW2 ?X4)) =
      \<lparr>written = [([97 :: byte, 0], ''k''), ([98, 99, 0], ''k''), ([100], ''k''), (?doc, ''k'')],
       failing = [3],
       pool = [Allocated 32, Allocated 2, Released 2, Allocated 3, Released 3,
               Allocated 1, Released 1, Allocated 32, Allocated 15, Released 15, Released 32]\<rparr>"
    by (simp add: Close_def test_defs)
  from Result_index_writer [OF s l, of "Suc 0"] obtain iw x2 where
    ib: "initBuffer testManager (indexWriter testManager ?W2) ?X2 = Return (iw, x2)"
    and run: "\<forall>r iw' x3. writeIndex (Result (Suc 0) testManager) testManager iw x2 (indexDocument ?W2)
                  = Return (r, iw', x3)
              \<longrightarrow> Result (Suc (Suc 0)) testManager ?W1 ?X1
                    = Return (r, ?W2, snd (snd (Close testManager iw' x3)))"
    by blast
  from ib i have "iw = ?IW" "x2 = ?X3" by simp_all
  with run wi have "Result (Suc (Suc 0)) testManager ?W1 ?X1
                    = Return (([], Some ?err), ?W2, snd (snd (Close testManager ?IW2 ?X4)))"
    by blast
  then show ?thesis
    unfolding c by (simp add: test_defs)
qed

subsection \<open>The index tiles the stream\<close>









lemma Write_success:
  "Write om w x d = Return ((n, None), w', x') \<Longrightarrow>
     writeLoop om (w\<lparr>totalLength := totalLength w + of_nat (length d)\<rparr>) x d = Return (None, w', x')"
  by (auto simp: Write_def Let_def split: outcome.splits option.splits)


lemma Result_success_writer:
  assumes "Result n om w x = Return ((oid, None), w', x')"
  shows "\<exists>x1. (if buffer w \<noteq> [] \<or> indirectIndex w = [] then flushBuffer om w x else (None, w, x))
               = (None, w', x1)"
proof -
  from assms obtain m where n: "n = Suc m"
    by (cases n) (simp_all add: Result.simps)
  obtain e w1 x1 where
    step: "(if buffer w \<noteq> [] \<or> indirectIndex w = [] then flushBuffer om w x else (None, w, x))
             = (e, w1, x1)"
    by (cases "if buffer w \<noteq> [] \<or> indirectIndex w = [] then flushBuffer om w x else (None, w, x)")
       auto
  from assms n have "e = None \<and> w1 = w'"
    unfolding n Result_Suc [OF step]
    by (auto split: option.splits if_splits outcome.splits)
  with step show ?thesis by blast
qed


text \<open>A run of the concrete collaborators: six bytes in two slices or in one, then
  \<^verbatim>\<open>Result\<close>, from any state of the pool and of the content manager.\<close>
lemma example_writes:
  "writeAll testManager (testWriter None) \<lparr>written = ws, failing = [], pool = ps\<rparr>
       [[97, 0, 98], [99, 0, 100]]
     = Some ((testWriter None)\<lparr>buffer := [100], totalLength := 6, currentPosition := 5,
          indirectIndex := [\<lparr>Start = 0, Length = 2, Object = [CHR ''k'', CHR ''a'', CHR 0x00]\<rparr>,
                            \<lparr>Start = 2, Length = 3, Object = [CHR ''k'', CHR ''b'', CHR ''c'', CHR 0x00]\<rparr>],
          splitter := Some (1, 0)\<rparr>,
        \<lparr>written = ws @ [([97, 0], ''k''), ([98, 99, 0], ''k'')], failing = [],
         pool = ps @ [Allocated 2, Released 2, Allocated 3, Released 3]\<rparr>)"
  and example_writes_one_slice:
  "writeAll testManager ((testWriter None)\<lparr>description := ''copy''\<rparr>)
       \<lparr>written = ws, failing = [], pool = ps\<rparr> [[97, 0, 98, 99, 0, 100]]
     = Some ((testWriter None)\<lparr>buffer := [100], totalLength := 6, currentPosition := 5,
          indirectIndex := [\<lparr>Start = 0, Length = 2, Object = [CHR ''k'', CHR ''a'', CHR 0x00]\<rparr>,
                            \<lparr>Start = 2, Length = 3, Object = [CHR ''k'', CHR ''b'', CHR ''c'', CHR 0x00]\<rparr>],
          description := ''copy'', splitter := Some (1, 0)\<rparr>,
        \<lparr>written = ws @ [([97, 0], ''k''), ([98, 99, 0], ''k'')], failing = [],
         pool = ps @ [Allocated 2, Released 2, Allocated 3, Released 3]\<rparr>)"
  by (simp_all add: test_defs)

lemma example_result:
  "Result (Suc (Suc 0)) testManager
     ((testWriter None)\<lparr>buffer := [100], totalLength := 6, currentPosition := 5,
        indirectIndex := [\<lparr>Start = 0, Length = 2, Object = [CHR ''k'', CHR ''a'', CHR 0x00]\<rparr>,
                          \<lparr>Start = 2, Length = 3, Object = [CHR ''k'', CHR ''b'', CHR ''c'', CHR 0x00]\<rparr>],
        description := dsc, splitter := Some (1, 0)\<rparr>)
     \<lparr>written = ws, failing = [], pool = ps\<rparr>
   = Return ((IndirectObjectID (''kkopia:indirect'' @ [CHR 0x03]), None),
       (testWriter None)\<lparr>totalLength := 6, currentPosition := 6,
        indirectIndex := [\<lparr>Start = 0, Length = 2, Object = [CHR ''k'', CHR ''a'', CHR 0x00]\<rparr>,
                          \<lparr>Start = 2, Length = 3, Object = [CHR ''k'', CHR ''b'', CHR ''c'', CHR 0x00]\<rparr>,
                          \<lparr>Start = 5, Length = 1, Object = ''kd''\<rparr>],
        description := dsc, splitter := Some (1, 0)\<rparr>,
       \<lparr>written = ws @ [([100], ''k''),
                   ([107, 111, 112, 105, 97, 58, 105, 110, 100, 105, 114, 101, 99, 116, 3], ''k'')],
        failing = [],
        pool = ps @ [Allocated 1, Released 1, Allocated 32, Allocated 15, Released 15, Released 32]\<rparr>)"
proof -
  let ?e0 = "\<lparr>Start = 0, Length = 2, Object = [CHR ''k'', CHR ''a'', CHR 0x00]\<rparr>"
  let ?e1 = "\<lparr>Start = 2, Length = 3, Object = [CHR ''k'', CHR ''b'', CHR ''c'', CHR 0x00]\<rparr>"
  let ?e2 = "\<lparr>Start = 5, Length = 1, Object = ''kd''\<rparr>"
  let ?doc = "[107, 111, 112, 105, 97, 58, 105, 110, 100, 105, 114, 101, 99, 116, 3] :: byte list"
  let ?W1 = "(testWriter None)\<lparr>buffer := [100], totalLength := 6, currentPosition := 5,
        indirectIndex := [?e0, ?e1], description := dsc, splitter := Some (1, 0)\<rparr>"
  let ?X1 = "\<lparr>written = ws, failing = [], pool = ps\<rparr>"
  let ?W2 = "(testWriter None)\<lparr>totalLength := 6, currentPosition := 6,
        indirectIndex := [?e0, ?e1, ?e2], description := dsc, splitter := Some (1, 0)\<rparr>"
  let ?X2 = "\<lparr>written = ws @ [([100 :: byte], ''k'')], failing = [],
      pool = ps @ [Allocated 1, Released 1]\<rparr>"
  let ?IW = "\<lparr>compressor = None, prefix = ''k'', buf = Some 32, buffer = [], totalLength = 0,
      currentPosition = 0, indirectIndex = [], description = ''LIST('' @ dsc @ '')'',
      splitter = Some (0 :: nat, 0 :: nat)\<rparr>"
  let ?X3 = "\<lparr>written = ws @ [([100 :: byte], ''k'')], failing = [],
      pool = ps @ [Allocated 1, Released 1, Allocated 32]\<rparr>"
  let ?IW1 = "?IW\<lparr>buffer := ?doc, totalLength := 15, splitter := Some (15, 0)\<rparr>"
  let ?IW2 = "?IW\<lparr>totalLength := 15, currentPosition := 15,
      indirectIndex := [\<lparr>Start = 0, Length = 15, Object = ''kkopia:indirect'' @ [CHR 0x03]\<rparr>],
      splitter := Some (15, 0)\<rparr>"
  let ?X4 = "\<lparr>written = ws @ [([100 :: byte], ''k''), (?doc, ''k'')], failing = [],
      pool = ps @ [Allocated 1, Released 1, Allocated 32, Allocated 15, Released 15]\<rparr>"
  have s: "(if buffer ?W1 \<noteq> [] \<or> indirectIndex ?W1 = [] then flushBuffer testManager ?W1 ?X1
            else (None, ?W1, ?X1)) = (None, ?W2, ?X2)"
    by (simp add: test_defs)
  have l: "length (indirectIndex ?W2) \<noteq> 1"
    by (simp add: test_defs)
  have i: "initBuffer testManager (indexWriter testManager ?W2) ?X2 = Return (?IW, ?X3)"
    by (simp add: test_defs initBuffer_def indexWriter_def)
  have d: "jsonMarshal testManager (indexDocument ?W2) = Inr ?doc"
    by (simp add: test_defs indexDocument_def)
  have w: "Write testManager ?IW ?X3 ?doc = Return ((15, None), ?IW1, ?X3)"
    by (simp add: test_defs)
  have e: "Encode testManager ?IW ?X3 (indexDocument ?W2) = Return (None, ?IW1, ?X3)"
    by (simp only: Encode_def d w sum.case outcome.case prod.case)
  have r: "Result (Suc 0) testManager ?IW1 ?X3 =
             Return ((''kkopia:indirect'' @ [CHR 0x03], None), ?IW2, ?X4)"
    by (simp add: Result.simps test_defs)
  have wi: "writeIndex (Result (Suc 0) testManager) testManager ?IW ?X3 (indexDocument ?W2)
              = Return ((IndirectObjectID (''kkopia:indirect'' @ [CHR 0x03]), None), ?IW2, ?X4)"
    by (simp only: writeIndex_def e r outcome.case prod.case option.case)
  have c: "snd (snd (Close testManager ?IW2 ?X4)) =
      \<lparr>written = ws @ [([100 :: byte], ''k''), (?doc, ''k'')], failing = [],
       pool = ps @ [Allocated 1, Released 1, Allocated 32, Allocated 15, Released 15, Released 32]\<rparr>"
    by (simp add: Close_def test_defs)
  have "Result (Suc (Suc 0)) testManager ?W1 ?X1 =
      Return ((IndirectObjectID (''kkopia:indirect'' @ [CHR 0x03]), None), ?W2,
              snd (snd (Close testManager ?IW2 ?X4)))"
    unfolding Result_Suc [OF s]
    by (simp only: option.case l if_False i wi outcome.case prod.case)
  then show ?thesis
    unfolding c by (simp add: test_defs)
qed



subsection \<open>Identical streams give identical objects\<close>

lemma flushBuffer_alike:
  assumes det: "\<forall>payload pre y cid y'. WriteContent om payload pre y = (Inr cid, y') \<longrightarrow> cid = idOf payload pre"
    and same: "sameWriter wa wb"
    and fa: "flushBuffer om wa xa = (None, wa', xa')"
    and fb: "flushBuffer om wb xb = (None, wb', xb')"
  shows "sameWriter wa' wb'"
proof -
  obtain payload isC err where m: "maybeCompressedContentBytes (compressor wa) [] (buffer wa) = (payload, isC, err)"
    by (cases "maybeCompressedContentBytes (compressor wa) [] (buffer wa)") auto
  from same have mb: "maybeCompressedContentBytes (compressor wb) [] (buffer wb) = (payload, isC, err)"
    using m by (simp add: sameWriter_def)
  obtain ba xa1 where aa: "Allocate om (length (buffer wa)) xa = (ba, xa1)"
    by (cases "Allocate om (length (buffer wa)) xa") auto
  obtain bb xb1 where ab: "Allocate om (length (buffer wb)) xb = (bb, xb1)"
    by (cases "Allocate om (length (buffer wb)) xb") auto
  obtain ra xa2 where ca: "WriteContent om payload (prefix wa) xa1 = (ra, xa2)"
    by (cases "WriteContent om payload (prefix wa) xa1") auto
  obtain rb xb2 where cb: "WriteContent om payload (prefix wb) xb1 = (rb, xb2)"
    by (cases "WriteContent om payload (prefix wb) xb1") auto
  from fa m aa ca have e: "err = None"
    by (cases err) (simp_all add: flushBuffer_def Let_def)
  from fa m aa ca e obtain cida where ra: "ra = Inr cida"
    by (cases ra) (simp_all add: flushBuffer_def Let_def)
  from fb mb ab cb e obtain cidb where rb: "rb = Inr cidb"
    by (cases rb) (simp_all add: flushBuffer_def Let_def)
  from det ca ra have "cida = idOf payload (prefix wa)" by blast
  moreover from det cb rb have "cidb = idOf payload (prefix wb)" by blast
  ultimately have cid: "cida = cidb" using same by (simp add: sameWriter_def)
  from fa m aa ca e ra have wa': "wa' = wa\<lparr>indirectIndex := indirectIndex wa @
        [\<lparr>Start = currentPosition wa, Length = of_nat (length (buffer wa)),
          Object = (if isC then Compressed (DirectObjectID cida) else DirectObjectID cida)\<rparr>],
      currentPosition := currentPosition wa + of_nat (length (buffer wa)), buffer := []\<rparr>"
    by (auto simp: flushBuffer_def Let_def)
  from fb mb ab cb e rb have wb': "wb' = wb\<lparr>indirectIndex := indirectIndex wb @
        [\<lparr>Start = currentPosition wb, Length = of_nat (length (buffer wb)),
          Object = (if isC then Compressed (DirectObjectID cidb) else DirectObjectID cidb)\<rparr>],
      currentPosition := currentPosition wb + of_nat (length (buffer wb)), buffer := []\<rparr>"
    by (auto simp: flushBuffer_def Let_def)
  from same cid show ?thesis
    unfolding wa' wb' by (simp add: sameWriter_def)
qed

lemma writeLoop_alike:
  assumes det: "\<forall>payload pre y cid y'. WriteContent om payload pre y = (Inr cid, y') \<longrightarrow> cid = idOf payload pre"
  shows "sameWriter wa wb \<Longrightarrow> writeLoop om wa xa data = Return (None, wa', xa') \<Longrightarrow>
     writeLoop om wb xb data = Return (None, wb', xb') \<Longrightarrow> sameWriter wa' wb'"
proof (induction data arbitrary: wa wb xa xb)
  case Nil
  then show ?case by simp
next
  case (Cons d ds)
  from Cons.prems(2) obtain sp where spa: "splitter wa = Some sp"
    by (auto simp: writeLoop_step simp del: writeLoop.simps split: option.splits)
  with Cons.prems(1) have spb: "splitter wb = Some sp" by (simp add: sameWriter_def)
  let ?wa1 = "wa\<lparr>buffer := buffer wa @ [d], splitter := Some (snd (ShouldSplit om sp d))\<rparr>"
  let ?wb1 = "wb\<lparr>buffer := buffer wb @ [d], splitter := Some (snd (ShouldSplit om sp d))\<rparr>"
  have same1: "sameWriter ?wa1 ?wb1"
    using Cons.prems(1) by (simp add: sameWriter_def)
  show ?case
  proof (cases "fst (ShouldSplit om sp d)")
    case False
    with Cons.prems(2) spa have ra: "writeLoop om ?wa1 xa ds = Return (None, wa', xa')"
      by (simp add: writeLoop_step Let_def del: writeLoop.simps)
    from False Cons.prems(3) spb have rb: "writeLoop om ?wb1 xb ds = Return (None, wb', xb')"
      by (simp add: writeLoop_step Let_def del: writeLoop.simps)
    from Cons.IH [OF same1 ra rb] show ?thesis .
  next
    case True
    obtain ea wa2 xa2 where fa: "flushBuffer om ?wa1 xa = (ea, wa2, xa2)"
      by (cases "flushBuffer om ?wa1 xa") auto
    obtain eb wb2 xb2 where fb: "flushBuffer om ?wb1 xb = (eb, wb2, xb2)"
      by (cases "flushBuffer om ?wb1 xb") auto
    from Cons.prems(2) spa True fa have ea: "ea = None"
      by (cases ea) (simp_all add: writeLoop_step Let_def del: writeLoop.simps)
    from Cons.prems(3) spb True fb have eb: "eb = None"
      by (cases eb) (simp_all add: writeLoop_step Let_def del: writeLoop.simps)
    from Cons.prems(2) spa True fa ea have ra: "writeLoop om wa2 xa2 ds = Return (None, wa', xa')"
      by (simp add: writeLoop_step Let_def del: writeLoop.simps)
    from Cons.prems(3) spb True fb eb have rb: "writeLoop om wb2 xb2 ds = Return (None, wb', xb')"
      by (simp add: writeLoop_step Let_def del: writeLoop.simps)
    have same2: "sameWriter wa2 wb2"
      using flushBuffer_alike [OF det same1] fa fb ea eb by blast
    from Cons.IH [OF same2 ra rb] show ?thesis .
  qed
qed

lemma flushBuffer_totalLength_update:
  "flushBuffer om (w\<lparr>totalLength := t\<rparr>) x =
     (case flushBuffer om w x of (r, w', x') \<Rightarrow> (r, w'\<lparr>totalLength := t\<rparr>, x'))"
  by (simp add: flushBuffer_def Let_def split: prod.splits option.splits sum.splits)

lemma writeLoop_totalLength_update:
  "writeLoop om (w\<lparr>totalLength := t\<rparr>) x data =
     (case writeLoop om w x data of
        Return (r, w', x') \<Rightarrow> Return (r, w'\<lparr>totalLength := t\<rparr>, x')
      | Panic \<Rightarrow> Panic
      | OutOfFuel \<Rightarrow> OutOfFuel)"
proof (induction data arbitrary: w x)
  case Nil
  then show ?case by simp
next
  case (Cons d ds)
  show ?case
  proof (cases "splitter w")
    case None
    then show ?thesis by (simp add: writeLoop_step del: writeLoop.simps)
  next
    case (Some sp)
    let ?w1 = "w\<lparr>buffer := buffer w @ [d], splitter := Some (snd (ShouldSplit om sp d))\<rparr>"
    have upd: "w\<lparr>totalLength := t, buffer := buffer w @ [d],
                   splitter := Some (snd (ShouldSplit om sp d))\<rparr> = ?w1\<lparr>totalLength := t\<rparr>"
      by simp
    show ?thesis
    proof (cases "fst (ShouldSplit om sp d)")
      case False
      with Some Cons.IH [of ?w1 x] show ?thesis
        by (simp add: writeLoop_step Let_def upd del: writeLoop.simps)
    next
      case True
      obtain e w2 x2 where f: "flushBuffer om ?w1 x = (e, w2, x2)"
        by (cases "flushBuffer om ?w1 x") auto
      have f': "flushBuffer om (?w1\<lparr>totalLength := t\<rparr>) x = (e, w2\<lparr>totalLength := t\<rparr>, x2)"
        by (simp only: flushBuffer_totalLength_update f prod.case)
      show ?thesis
      proof (cases e)
        case None
        with Some True f f' Cons.IH [of w2 x2] show ?thesis
          by (simp add: writeLoop_step [of om w] writeLoop_step [of om "w\<lparr>totalLength := t\<rparr>"] Let_def upd
              del: writeLoop.simps)
      next
        case (Some err)
        with \<open>splitter w = Some sp\<close> True f f' show ?thesis
          by (simp add: writeLoop_step [of om w] writeLoop_step [of om "w\<lparr>totalLength := t\<rparr>"] Let_def upd
              del: writeLoop.simps)
      qed
    qed
  qed
qed

lemma writeLoop_append:
  "writeLoop om w x (as @ bs) =
     (case writeLoop om w x as of
        Return (None, w', x') \<Rightarrow> writeLoop om w' x' bs
      | Return (Some err, w', x') \<Rightarrow> Return (Some err, w', x')
      | Panic \<Rightarrow> Panic
      | OutOfFuel \<Rightarrow> OutOfFuel)"
proof (induction as arbitrary: w x)
  case Nil
  then show ?case by simp
next
  case (Cons d ds)
  show ?case
  proof (cases "splitter w")
    case None
    then show ?thesis by (simp add: writeLoop_step del: writeLoop.simps)
  next
    case (Some sp)
    with Cons.IH show ?thesis
      by (simp add: writeLoop_step Let_def del: writeLoop.simps split: prod.splits option.splits)
  qed
qed

lemma writeAll_concat:
  "writeAll om w x ds = Some (w', x') \<Longrightarrow>
     writeLoop om (w\<lparr>totalLength := totalLength w + of_nat (length (concat ds))\<rparr>) x (concat ds)
       = Return (None, w', x')"
proof (induction ds arbitrary: w x)
  case Nil
  then show ?case by simp
next
  case (Cons d ds)
  from Cons.prems obtain n wa xa where
    wr: "Write om w x d = Return ((n, None), wa, xa)" and rest: "writeAll om wa xa ds = Some (w', x')"
    by (auto split: outcome.splits option.splits)
  let ?T = "totalLength w + of_nat (length (concat (d # ds)))"
  note loop = Write_success [OF wr]
  have ta: "totalLength wa = totalLength w + of_nat (length d)"
    using writeLoop_totalLength [OF loop] by simp
  have first: "writeLoop om (w\<lparr>totalLength := ?T\<rparr>) x d = Return (None, wa\<lparr>totalLength := ?T\<rparr>, xa)"
    using writeLoop_totalLength_update
      [where om = om and w = "w\<lparr>totalLength := totalLength w + of_nat (length d)\<rparr>"
         and t = ?T and x = x and data = d]
      loop by simp
  have "wa\<lparr>totalLength := ?T\<rparr> = wa\<lparr>totalLength := totalLength wa + of_nat (length (concat ds))\<rparr>"
    using ta by (simp add: algebra_simps)
  with Cons.IH [OF rest] have second:
    "writeLoop om (wa\<lparr>totalLength := ?T\<rparr>) xa (concat ds) = Return (None, w', x')" by simp
  show ?case
    using first second by (simp add: writeLoop_append del: writeLoop.simps)
qed


lemma writeIndex_success:
  assumes "writeIndex f om iw x ind = Return ((oid, None), iw', x')"
  shows "\<exists>bs n iw1 x1 r. jsonMarshal om ind = Inr bs
           \<and> Write om iw x bs = Return ((n, None), iw1, x1)
           \<and> f iw1 x1 = Return ((r, None), iw', x') \<and> oid = IndirectObjectID r"
proof -
  from assms obtain iw1 x1 where enc: "Encode om iw x ind = Return (None, iw1, x1)"
    by (auto simp: writeIndex_def split: outcome.splits option.splits)
  with assms obtain r where r: "f iw1 x1 = Return ((r, None), iw', x')" "oid = IndirectObjectID r"
    by (auto simp: writeIndex_def split: outcome.splits option.splits)
  from enc obtain bs where bs: "jsonMarshal om ind = Inr bs"
    by (cases "jsonMarshal om ind") (auto simp: Encode_def)
  with enc obtain n where "Write om iw x bs = Return ((n, None), iw1, x1)"
    by (auto simp: Encode_def split: outcome.splits)
  with bs r show ?thesis by blast
qed

lemma Result_multi_success:
  assumes step: "(if buffer w \<noteq> [] \<or> indirectIndex w = [] then flushBuffer om w x else (None, w, x))
             = (None, w1, x1)"
    and many: "length (indirectIndex w1) \<noteq> 1"
    and res: "Result (Suc n) om w x = Return ((oid, None), w', x')"
  shows "\<exists>iw x2 iw' x3. initBuffer om (indexWriter om w1) x1 = Return (iw, x2)
           \<and> writeIndex (Result n om) om iw x2 (indexDocument w1) = Return ((oid, None), iw', x3)"
  using res many unfolding Result_Suc [OF step]
  by (auto split: outcome.splits simp del: One_nat_def)

lemma Result_alike:
  assumes det: "\<forall>payload pre y cid y'. WriteContent om payload pre y = (Inr cid, y') \<longrightarrow> cid = idOf payload pre"
  shows "sameWriter wa wb \<Longrightarrow> Result n om wa xa = Return ((oa, None), wa', xa') \<Longrightarrow>
     Result m om wb xb = Return ((ob, None), wb', xb') \<Longrightarrow> oa = ob \<and> sameWriter wa' wb'"
proof (induction n arbitrary: m wa wb xa xb oa ob wa' wb' xa' xb')
  case 0
  then show ?case by (simp add: Result.simps)
next
  case (Suc n)
  from Suc.prems(3) obtain m' where m: "m = Suc m'"
    by (cases m) (simp_all add: Result.simps)
  from Result_success_writer [OF Suc.prems(2)] obtain xa1 where
    sa: "(if buffer wa \<noteq> [] \<or> indirectIndex wa = [] then flushBuffer om wa xa else (None, wa, xa))
           = (None, wa', xa1)" by blast
  from Result_success_writer [OF Suc.prems(3)] obtain xb1 where
    sb: "(if buffer wb \<noteq> [] \<or> indirectIndex wb = [] then flushBuffer om wb xb else (None, wb, xb))
           = (None, wb', xb1)" by blast
  from Suc.prems(1) have cond: "(buffer wa \<noteq> [] \<or> indirectIndex wa = [])
      \<longleftrightarrow> (buffer wb \<noteq> [] \<or> indirectIndex wb = [])"
    by (simp add: sameWriter_def)
  have same': "sameWriter wa' wb'"
  proof (cases "buffer wa \<noteq> [] \<or> indirectIndex wa = []")
    case True
    with sa have fa: "flushBuffer om wa xa = (None, wa', xa1)" by simp
    from True cond sb have fb: "flushBuffer om wb xb = (None, wb', xb1)" by simp
    from flushBuffer_alike [OF det Suc.prems(1) fa fb] show ?thesis .
  next
    case False
    with sa cond sb Suc.prems(1) show ?thesis by simp
  qed
  then have idx: "indirectIndex wa' = indirectIndex wb'" by (simp add: sameWriter_def)
  show ?case
  proof (cases "length (indirectIndex wa') = 1")
    case True
    with Suc.prems(2) have "oa = Object (indirectIndex wa' ! 0)"
      unfolding Result_Suc [OF sa] by simp
    moreover from True idx Suc.prems(3) have "ob = Object (indirectIndex wb' ! 0)"
      unfolding m Result_Suc [OF sb] by simp
    ultimately show ?thesis using idx same' by simp
  next
    case False
    from Result_multi_success [OF sa False Suc.prems(2)] obtain iwa xa2 iwa' xa3 where
      ia: "initBuffer om (indexWriter om wa') xa1 = Return (iwa, xa2)"
      and wia: "writeIndex (Result n om) om iwa xa2 (indexDocument wa') = Return ((oa, None), iwa', xa3)"
      by blast
    from False idx have Fb: "length (indirectIndex wb') \<noteq> 1" by simp
    from Result_multi_success [OF sb Fb Suc.prems(3) [unfolded m]] obtain iwb xb2 iwb' xb3 where
      ib: "initBuffer om (indexWriter om wb') xb1 = Return (iwb, xb2)"
      and wib: "writeIndex (Result m' om) om iwb xb2 (indexDocument wb') = Return ((ob, None), iwb', xb3)"
      by blast
    from writeIndex_success [OF wia] obtain bsa na iwa1 xa4 ra where
      ma: "jsonMarshal om (indexDocument wa') = Inr bsa"
      and wra: "Write om iwa xa2 bsa = Return ((na, None), iwa1, xa4)"
      and ra: "Result n om iwa1 xa4 = Return ((ra, None), iwa', xa3)"
      and oa: "oa = IndirectObjectID ra" by blast
    from writeIndex_success [OF wib] obtain bsb nb iwb1 xb4 rb where
      mb: "jsonMarshal om (indexDocument wb') = Inr bsb"
      and wrb: "Write om iwb xb2 bsb = Return ((nb, None), iwb1, xb4)"
      and rb: "Result m' om iwb1 xb4 = Return ((rb, None), iwb', xb3)"
      and ob: "ob = IndirectObjectID rb" by blast
    from idx have "indexDocument wa' = indexDocument wb'" by (simp add: indexDocument_def)
    with ma mb have bs: "bsa = bsb" by simp
    from same' ia ib have same_iw: "sameWriter iwa iwb"
      by (auto simp: initBuffer_def indexWriter_def sameWriter_def split: prod.splits)
    then have same_iw0: "sameWriter (iwa\<lparr>totalLength := totalLength iwa + of_nat (length bsa)\<rparr>)
        (iwb\<lparr>totalLength := totalLength iwb + of_nat (length bsa)\<rparr>)"
      by (simp add: sameWriter_def)
    from writeLoop_alike [OF det same_iw0 Write_success [OF wra] Write_success [OF wrb [folded bs]]]
    have "sameWriter iwa1 iwb1" .
    from Suc.IH [OF this ra rb] oa ob same' show ?thesis by simp
  qed
qed

text \<open>
  Claim C7. Two writers share the splitter behaviour, the marshaller and a content manager
  whose identifiers depend on payload and prefix only (\<open>idOf\<close>), whatever its state;
  they have the same compressor, prefix and splitter state and start empty. They are given
  the same bytes, possibly cut into slices differently, in shared states that may differ;
  all writes succeed and both \<^verbatim>\<open>Result\<close> calls return an identifier. Then the two
  indexes are equal, entry by entry, and so are the two identifiers.
\<close>
theorem identical_streams_identical_objects:
  assumes "\<forall>payload pre y cid y'. WriteContent om payload pre y = (Inr cid, y') \<longrightarrow> cid = idOf payload pre"
    and "compressor wa = compressor wb" and "prefix wa = prefix wb" and "splitter wa = splitter wb"
    and "buffer wa = []" and "buffer wb = []"
    and "indirectIndex wa = []" and "indirectIndex wb = []"
    and "currentPosition wa = 0" and "currentPosition wb = 0"
    and "concat dsa = concat dsb"
    and "writeAll om wa xa dsa = Some (wa1, xa1)" and "writeAll om wb xb dsb = Some (wb1, xb1)"
    and "Result n om wa1 xa1 = Return ((oa, None), wa2, xa2)"
    and "Result m om wb1 xb1 = Return ((ob, None), wb2, xb2)"
  shows "indirectIndex wa2 = indirectIndex wb2 \<and> oa = ob"
proof -
  let ?wa0 = "wa\<lparr>totalLength := totalLength wa + of_nat (length (concat dsa))\<rparr>"
  let ?wb0 = "wb\<lparr>totalLength := totalLength wb + of_nat (length (concat dsa))\<rparr>"
  have same0: "sameWriter ?wa0 ?wb0"
    using assms(2-10) by (simp add: sameWriter_def)
  have la: "writeLoop om ?wa0 xa (concat dsa) = Return (None, wa1, xa1)"
    by (rule writeAll_concat [OF assms(12)])
  have lb: "writeLoop om ?wb0 xb (concat dsa) = Return (None, wb1, xb1)"
    using writeAll_concat [OF assms(13)] assms(11) by simp
  from writeLoop_alike [OF assms(1) same0 la lb] have "sameWriter wa1 wb1" .
  from Result_alike [OF assms(1) this assms(14) assms(15)] show ?thesis
    by (simp add: sameWriter_def)
qed


theorem identical_streams_identical_objects_witness:
  "writeAll testManager (testWriter None) (testWorld0 []) [[97, 0, 98], [99, 0, 100]]
     = Some ((testWriter None)\<lparr>buffer := [100], totalLength := 6, currentPosition := 5,
          indirectIndex := [\<lparr>Start = 0, Length = 2, Object = [CHR ''k'', CHR ''a'', CHR 0x00]\<rparr>,
                            \<lparr>Start = 2, Length = 3, Object = [CHR ''k'', CHR ''b'', CHR ''c'', CHR 0x00]\<rparr>],
          splitter := Some (1, 0)\<rparr>,
        \<lparr>written = [([97, 0], ''k''), ([98, 99, 0], ''k'')], failing = [],
         pool = [Allocated 32, Allocated 2, Released 2, Allocated 3, Released 3]\<rparr>)
   \<and> writeAll testManager ((testWriter None)\<lparr>description := ''copy''\<rparr>)
        \<lparr>written = [([1], ''k'')], failing = [], pool = []\<rparr> [[97, 0, 98, 99, 0, 100]]
     = Some ((testWriter None)\<lparr>buffer := [100], totalLength := 6, currentPosition := 5,
          indirectIndex := [\<lparr>Start = 0, Length = 2, Object = [CHR ''k'', CHR ''a'', CHR 0x00]\<rparr>,
                            \<lparr>Start = 2, Length = 3, Object = [CHR ''k'', CHR ''b'', CHR ''c'', CHR 0x00]\<rparr>],
          description := ''copy'', splitter := Some (1, 0)\<rparr>,
        \<lparr>written = [([1], ''k''), ([97, 0], ''k''), ([98, 99, 0], ''k'')], failing = [],
         pool = [Allocated 2, Released 2, Allocated 3, Released 3]\<rparr>)
   \<and> indirectIndex ((testWriter None)\<lparr>totalLength := 6, currentPosition := 6,
        indirectIndex := [\<lparr>Start = 0, Length = 2, Object = [CHR ''k'', CHR ''a'', CHR 0x00]\<rparr>,
                          \<lparr>Start = 2, Length = 3, Object = [CHR ''k'', CHR ''b'', CHR ''c'', CHR 0x00]\<rparr>,
                          \<lparr>Start = 5, Length = 1, Object = ''kd''\<rparr>],
        description := ''file'', splitter := Some (1, 0)\<rparr>)
     = indirectIndex ((testWriter None)\<lparr>totalLength := 6, currentPosition := 6,
        indirectIndex := [\<lparr>Start = 0, Length = 2, Object = [CHR ''k'', CHR ''a'', CHR 0x00]\<rparr>,
                          \<lparr>Start = 2, Length = 3, Object = [CHR ''k'', CHR ''b'', CHR ''c'', CHR 0x00]\<rparr>,
                          \<lparr>Start = 5, Length = 1, Object = ''kd''\<rparr>],
        description := ''copy'', splitter := Some (1, 0)\<rparr>)"
proof -
  let ?wa = "testWriter None"
  let ?wb = "(testWriter None)\<lparr>description := ''copy''\<rparr>"
  let ?xb = "\<lparr>written = [([1 :: byte], ''k'')], failing = [], pool = []\<rparr>"
  have det: "\<forall>payload pre y cid y'. WriteContent testManager payload pre y = (Inr cid, y')
               \<longrightarrow> cid = pre @ map (\<lambda>b. char_of (unat b)) payload"
    by (simp add: testManager_def split: if_splits)
  have cfg: "compressor ?wa = compressor ?wb" "prefix ?wa = prefix ?wb" "splitter ?wa = splitter ?wb"
    "buffer ?wa = []" "buffer ?wb = []" "indirectIndex ?wa = []" "indirectIndex ?wb = []"
    "currentPosition ?wa = 0" "currentPosition ?wb = 0"
    by (simp_all add: testWriter_def)
  have str: "concat [[97, 0, 98], [99, 0, 100 :: byte]] = concat [[97, 0, 98, 99, 0, 100]]"
    by simp
  let ?e0 = "\<lparr>Start = 0, Length = 2, Object = [CHR ''k'', CHR ''a'', CHR 0x00]\<rparr>"
  let ?e1 = "\<lparr>Start = 2, Length = 3, Object = [CHR ''k'', CHR ''b'', CHR ''c'', CHR 0x00]\<rparr>"
  let ?e2 = "\<lparr>Start = 5, Length = 1, Object = ''kd''\<rparr>"
  let ?doc = "[107, 111, 112, 105, 97, 58, 105, 110, 100, 105, 114, 101, 99, 116, 3] :: byte list"
  let ?WA1 = "(testWriter None)\<lparr>buffer := [100], totalLength := 6, currentPosition := 5,
          indirectIndex := [?e0, ?e1], splitter := Some (1, 0)\<rparr>"
  let ?XA1 = "\<lparr>written = [([97 :: byte, 0], ''k''), ([98, 99, 0], ''k'')], failing = [],
         pool = [Allocated 32, Allocated 2, Released 2, Allocated 3, Released 3]\<rparr>"
  let ?WB1 = "(testWriter None)\<lparr>buffer := [100], totalLength := 6, currentPosition := 5,
          indirectIndex := [?e0, ?e1], description := ''copy'', splitter := Some (1, 0)\<rparr>"
  let ?XB1 = "\<lparr>written = [([1 :: byte], ''k''), ([97, 0], ''k''), ([98, 99, 0], ''k'')], failing = [],
         pool = [Allocated 2, Released 2, Allocated 3, Released 3]\<rparr>"
  let ?WA2 = "(testWriter None)\<lparr>totalLength := 6, currentPosition := 6,
        indirectIndex := [?e0, ?e1, ?e2], description := ''file'', splitter := Some (1, 0)\<rparr>"
  let ?WB2 = "(testWriter None)\<lparr>totalLength := 6, currentPosition := 6,
        indirectIndex := [?e0, ?e1, ?e2], description := ''copy'', splitter := Some (1, 0)\<rparr>"
  let ?XA2 = "\<lparr>written = [([97 :: byte, 0], ''k''), ([98, 99, 0], ''k''), ([100], ''k''), (?doc, ''k'')],
        failing = [],
        pool = [Allocated 32, Allocated 2, Released 2, Allocated 3, Released 3,
                Allocated 1, Released 1, Allocated 32, Allocated 15, Released 15, Released 32]\<rparr>"
  let ?XB2 = "\<lparr>written = [([1 :: byte], ''k''), ([97, 0], ''k''), ([98, 99, 0], ''k''), ([100], ''k''),
                   (?doc, ''k'')],
        failing = [],
        pool = [Allocated 2, Released 2, Allocated 3, Released 3,
                Allocated 1, Released 1, Allocated 32, Allocated 15, Released 15, Released 32]\<rparr>"
  have wa: "writeAll testManager ?wa (testWorld0 []) [[97, 0, 98], [99, 0, 100]] = Some (?WA1, ?XA1)"
    using example_writes [of "[]" "[Allocated 32]"] by (simp add: testWorld0_def)
  have wb: "writeAll testManager ?wb ?xb [[97, 0, 98, 99, 0, 100]] = Some (?WB1, ?XB1)"
    using example_writes_one_slice [of "[([1], ''k'')]" "[]"] by simp
  have ra: "Result (Suc (Suc 0)) testManager ?WA1 ?XA1 =
      Return ((IndirectObjectID (''kkopia:indirect'' @ [CHR 0x03]), None), ?WA2, ?XA2)"
    using example_result [of "''file''" "[([97, 0], ''k''), ([98, 99, 0], ''k'')]"
      "[Allocated 32, Allocated 2, Released 2, Allocated 3, Released 3]"]
    by (simp add: testWriter_def)
  have rb: "Result (Suc (Suc 0)) testManager ?WB1 ?XB1 =
      Return ((IndirectObjectID (''kkopia:indirect'' @ [CHR 0x03]), None), ?WB2, ?XB2)"
    using example_result [of "''copy''" "[([1], ''k''), ([97, 0], ''k''), ([98, 99, 0], ''k'')]"
      "[Allocated 2, Released 2, Allocated 3, Released 3]"]
    by simp
  from identical_streams_identical_objects [OF det cfg str wa wb ra rb] wa wb
  show ?thesis by simp
qed

subsection \<open>After an error\<close>

lemma flushFailsAt_returns:
  assumes "flushFailsAt om w x pre d err w' x'"
  shows "writeLoop om w x (pre @ d # post) = Return (Some err, w', x')"
proof -
  from assms obtain wp xp sp where
    run: "writeLoop om w x pre = Return (None, wp, xp)" and sp: "splitter wp = Some sp"
    and split: "fst (ShouldSplit om sp d)"
    and f: "flushBuffer om (wp\<lparr>buffer := buffer wp @ [d],
              splitter := Some (snd (ShouldSplit om sp d))\<rparr>) xp = (Some err, w', x')"
    unfolding flushFailsAt_def by blast
  have "writeLoop om wp xp (d # post) = Return (Some err, w', x')"
    using sp split f by (simp add: writeLoop_step Let_def del: writeLoop.simps)
  with run show ?thesis
    by (simp add: writeLoop_append del: writeLoop.simps)
qed

lemma flushFailsAt_Cons:
  assumes "writeLoop om w x [d] = Return (None, w1, x1)"
    and "flushFailsAt om w1 x1 pre d' err w' x'"
  shows "flushFailsAt om w x (d # pre) d' err w' x'"
proof -
  from assms(2) obtain wp xp sp where
    run: "writeLoop om w1 x1 pre = Return (None, wp, xp)" and rest: "splitter wp = Some sp"
      "fst (ShouldSplit om sp d')"
      "flushBuffer om (wp\<lparr>buffer := buffer wp @ [d'],
              splitter := Some (snd (ShouldSplit om sp d'))\<rparr>) xp = (Some err, w', x')"
    unfolding flushFailsAt_def by blast
  have "writeLoop om w x ([d] @ pre) = Return (None, wp, xp)"
    using assms(1) run by (simp only: writeLoop_append outcome.case prod.case option.case)
  then have "writeLoop om w x (d # pre) = Return (None, wp, xp)" by simp
  with rest show ?thesis unfolding flushFailsAt_def by blast
qed

lemma writeLoop_error_flushFailsAt:
  "writeLoop om w x data = Return (Some err, w', x') \<Longrightarrow>
     \<exists>pre d post. data = pre @ d # post \<and> flushFailsAt om w x pre d err w' x'"
proof (induction data arbitrary: w x)
  case Nil
  then show ?case by simp
next
  case (Cons d ds)
  from Cons.prems obtain sp where sp: "splitter w = Some sp"
    by (auto simp: writeLoop_step simp del: writeLoop.simps split: option.splits)
  let ?w1 = "w\<lparr>buffer := buffer w @ [d], splitter := Some (snd (ShouldSplit om sp d))\<rparr>"
  show ?case
  proof (cases "fst (ShouldSplit om sp d)")
    case False
    with Cons.prems sp have run: "writeLoop om ?w1 x ds = Return (Some err, w', x')"
      by (simp add: writeLoop_step Let_def del: writeLoop.simps)
    from False sp have one: "writeLoop om w x [d] = Return (None, ?w1, x)"
      by (simp add: writeLoop_step Let_def del: writeLoop.simps) simp
    from Cons.IH [OF run] obtain pre d' post where
      "ds = pre @ d' # post" "flushFailsAt om ?w1 x pre d' err w' x'" by blast
    with flushFailsAt_Cons [OF one] have
      "d # ds = (d # pre) @ d' # post \<and> flushFailsAt om w x (d # pre) d' err w' x'" by simp
    then show ?thesis by blast
  next
    case True
    obtain e w2 x2 where f: "flushBuffer om ?w1 x = (e, w2, x2)"
      by (cases "flushBuffer om ?w1 x") auto
    show ?thesis
    proof (cases e)
      case None
      with Cons.prems sp True f have run: "writeLoop om w2 x2 ds = Return (Some err, w', x')"
        by (simp add: writeLoop_step Let_def del: writeLoop.simps)
      from None True sp f have one: "writeLoop om w x [d] = Return (None, w2, x2)"
        by (simp add: writeLoop_step Let_def del: writeLoop.simps) simp
      from Cons.IH [OF run] obtain pre d' post where
        "ds = pre @ d' # post" "flushFailsAt om w2 x2 pre d' err w' x'" by blast
      with flushFailsAt_Cons [OF one] have
        "d # ds = (d # pre) @ d' # post \<and> flushFailsAt om w x (d # pre) d' err w' x'" by simp
      then show ?thesis by blast
    next
      case (Some err')
      with Cons.prems sp True f have "flushBuffer om ?w1 x = (Some err, w', x')"
        by (simp add: writeLoop_step Let_def del: writeLoop.simps)
      with sp True have "flushFailsAt om w x [] d err w' x'"
        unfolding flushFailsAt_def by simp
      then have "d # ds = [] @ d # ds \<and> flushFailsAt om w x [] d err w' x'" by simp
      then show ?thesis by blast
    qed
  qed
qed

lemma writeLoop_error_iff:
  "writeLoop om w x data = Return (Some err, w', x') \<longleftrightarrow>
     (\<exists>pre d post. data = pre @ d # post \<and> flushFailsAt om w x pre d err w' x')"
  using writeLoop_error_flushFailsAt [of om w x data err w' x'] flushFailsAt_returns [of om w x]
  by blast

lemma writeLoop_neverSplits:
  "splitter w = Some sp \<Longrightarrow> neverSplits om sp data \<Longrightarrow>
     \<exists>w'. writeLoop om w x data = Return (None, w', x) \<and> buffer w' = buffer w @ data
          \<and> indirectIndex w' = indirectIndex w"
proof (induction data arbitrary: w sp)
  case Nil
  then show ?case by simp
next
  case (Cons d ds)
  let ?w1 = "w\<lparr>buffer := buffer w @ [d], splitter := Some (snd (ShouldSplit om sp d))\<rparr>"
  from Cons.prems have ns: "\<not> fst (ShouldSplit om sp d)" "neverSplits om (snd (ShouldSplit om sp d)) ds"
    by (auto split: prod.splits)
  have "splitter ?w1 = Some (snd (ShouldSplit om sp d))" by simp
  from Cons.IH [OF this ns(2)] obtain w' where
    "writeLoop om ?w1 x ds = Return (None, w', x)" "buffer w' = buffer ?w1 @ ds"
    "indirectIndex w' = indirectIndex ?w1" by blast
  with Cons.prems(1) ns(1) show ?case
    by (simp add: writeLoop_step Let_def del: writeLoop.simps)
qed


text \<open>
  Claim C1, amended. The writer has no field that records an error. \<^verbatim>\<open>Write\<close> returns
  an error exactly when a flush performed by that very call fails: it then returns the
  count 0, the error of that flush and the state that flush left, and it returns an error
  in no other case. A flush whose payload the content manager rejects returns the
  manager's error wrapped with the chunk number and the description, and when the final
  flush of \<^verbatim>\<open>Result\<close> fails, \<^verbatim>\<open>Result\<close> returns that error with the empty identifier.
  Whatever happened before, a \<^verbatim>\<open>Write\<close> whose bytes ask for no split returns the length of
  the slice and a nil error without calling the content manager, and a \<^verbatim>\<open>Result\<close> on an
  empty buffer and an index of one entry returns that entry's identifier and a nil error.
\<close>
theorem Write_keeps_no_error:
  "(Write om w x data = Return ((n, Some err), w', x') \<longleftrightarrow>
      n = 0 \<and> (\<exists>pre d post. data = pre @ d # post \<and>
                 flushFailsAt om (w\<lparr>totalLength := totalLength w + of_nat (length data)\<rparr>) x
                   pre d err w' x'))
   \<and> (maybeCompressedContentBytes (compressor w) [] (buffer w) = (payload, isCompressed, None)
        \<and> WriteContent om payload (prefix w) (snd (Allocate om (length (buffer w)) x)) = (Inl e, x2)
      \<longrightarrow> fst (flushBuffer om w x) =
            Some (Wrapf e ''error when flushing chunk %d of %s''
                    [ArgInt (length (indirectIndex w)), ArgStr (description w)]))
   \<and> ((if buffer w \<noteq> [] \<or> indirectIndex w = [] then flushBuffer om w x else (None, w, x))
         = (Some err', w1, x1)
      \<longrightarrow> Result (Suc k) om w x = Return (([], Some err'), w1, x1))
   \<and> (splitter w = Some sp \<and> neverSplits om sp data \<longrightarrow>
      (\<exists>w''. Write om w x data = Return ((length data, None), w'', x)))
   \<and> (buffer w = [] \<and> length (indirectIndex w) = 1 \<longrightarrow>
      Result (Suc k) om w x = Return ((Object (indirectIndex w ! 0), None), w, x))"
proof (intro conjI impI)
  let ?w0 = "w\<lparr>totalLength := totalLength w + of_nat (length data)\<rparr>"
  have "Write om w x data = Return ((n, Some err), w', x') \<longleftrightarrow>
          n = 0 \<and> writeLoop om ?w0 x data = Return (Some err, w', x')"
    by (auto simp: Write_def Let_def split: outcome.splits option.splits)
  then show "Write om w x data = Return ((n, Some err), w', x') \<longleftrightarrow>
      n = 0 \<and> (\<exists>pre d post. data = pre @ d # post \<and> flushFailsAt om ?w0 x pre d err w' x')"
    by (simp only: writeLoop_error_iff)
next
  assume a: "maybeCompressedContentBytes (compressor w) [] (buffer w) = (payload, isCompressed, None)
        \<and> WriteContent om payload (prefix w) (snd (Allocate om (length (buffer w)) x)) = (Inl e, x2)"
  obtain b xa where "Allocate om (length (buffer w)) x = (b, xa)"
    by (cases "Allocate om (length (buffer w)) x") auto
  with a show "fst (flushBuffer om w x) =
            Some (Wrapf e ''error when flushing chunk %d of %s''
                    [ArgInt (length (indirectIndex w)), ArgStr (description w)])"
    by (simp add: flushBuffer_def Let_def)
next
  assume "(if buffer w \<noteq> [] \<or> indirectIndex w = [] then flushBuffer om w x else (None, w, x))
         = (Some err', w1, x1)"
  then show "Result (Suc k) om w x = Return (([], Some err'), w1, x1)"
    by (simp add: Result_Suc)
next
  assume a: "splitter w = Some sp \<and> neverSplits om sp data"
  let ?w0 = "w\<lparr>totalLength := totalLength w + of_nat (length data)\<rparr>"
  from a have "splitter ?w0 = Some sp" by simp
  from writeLoop_neverSplits [OF this, of om data x] a
  obtain w'' where "writeLoop om ?w0 x data = Return (None, w'', x)" by blast
  then show "\<exists>w''. Write om w x data = Return ((length data, None), w'', x)"
    by (simp add: Write_def Let_def)
next
  assume "buffer w = [] \<and> length (indirectIndex w) = 1"
  then show "Result (Suc k) om w x = Return ((Object (indirectIndex w ! 0), None), w, x)"
    using Result_single_entry [of w k om x] by blast
qed

text \<open>
  Claim C1 says that after the first content-manager error every later \<^verbatim>\<open>Write\<close> returns
  the same kind of error and \<^verbatim>\<open>Result\<close> returns the error. With a content manager that
  rejects its first payload only: the first \<^verbatim>\<open>Write\<close> returns the storage error; a second
  \<^verbatim>\<open>Write\<close> on the same writer flushes its chunk and returns 2 and nil; and \<^verbatim>\<open>Result\<close>
  called right after the failure returns the empty identifier and nil.
\<close>
theorem Write_after_error_counterexample:
  "Write testManager (testWriter None) (testWorld0 [0]) [97, 0] =
     Return ((0, Some (Wrapf (New ''storage error'') ''error when flushing chunk %d of %s''
                        [ArgInt 0, ArgStr ''file''])),
             (testWriter None)\<lparr>totalLength := 2, currentPosition := 2,
                indirectIndex := [\<lparr>Start = 0, Length = 2, Object = []\<rparr>]\<rparr>,
             \<lparr>written = [([97, 0], ''k'')], failing = [0],
              pool = [Allocated 32, Allocated 2, Released 2]\<rparr>)
   \<and> Write testManager
        ((testWriter None)\<lparr>totalLength := 2, currentPosition := 2,
                indirectIndex := [\<lparr>Start = 0, Length = 2, Object = []\<rparr>]\<rparr>)
        \<lparr>written = [([97, 0], ''k'')], failing = [0],
              pool = [Allocated 32, Allocated 2, Released 2]\<rparr> [98, 0] =
     Return ((2, None),
             (testWriter None)\<lparr>totalLength := 4, currentPosition := 4,
                indirectIndex := [\<lparr>Start = 0, Length = 2, Object = []\<rparr>,
                                  \<lparr>Start = 2, Length = 2, Object = [CHR ''k'', CHR ''b'', CHR 0x00]\<rparr>]\<rparr>,
             \<lparr>written = [([97, 0], ''k''), ([98, 0], ''k'')], failing = [0],
              pool = [Allocated 32, Allocated 2, Released 2, Allocated 2, Released 2]\<rparr>)
   \<and> Result (Suc 0) testManager
        ((testWriter None)\<lparr>totalLength := 2, currentPosition := 2,
                indirectIndex := [\<lparr>Start = 0, Length = 2, Object = []\<rparr>]\<rparr>)
        \<lparr>written = [([97, 0], ''k'')], failing = [0],
              pool = [Allocated 32, Allocated 2, Released 2]\<rparr> =
     Return (([], None),
             (testWriter None)\<lparr>totalLength := 2, currentPosition := 2,
                indirectIndex := [\<lparr>Start = 0, Length = 2, Object = []\<rparr>]\<rparr>,
             \<lparr>written = [([97, 0], ''k'')], failing = [0],
              pool = [Allocated 32, Allocated 2, Released 2]\<rparr>)"
  by (simp add: test_defs Result.simps)



theorem Write_keeps_no_error_witness:
  "Write testManager (testWriter None) (testWorld0 [0]) [97, 0] =
     Return ((0, Some (Wrapf (New ''storage error'') ''error when flushing chunk %d of %s''
                        [ArgInt 0, ArgStr ''file''])),
             (testWriter None)\<lparr>totalLength := 2, currentPosition := 2,
                indirectIndex := [\<lparr>Start = 0, Length = 2, Object = []\<rparr>]\<rparr>,
             \<lparr>written = [([97, 0], ''k'')], failing = [0],
              pool = [Allocated 32, Allocated 2, Released 2]\<rparr>)
   \<and> fst (flushBuffer testManager ((testWriter None)\<lparr>buffer := [97, 0]\<rparr>) (testWorld0 [0])) =
       Some (Wrapf (New ''storage error'') ''error when flushing chunk %d of %s''
               [ArgInt 0, ArgStr ''file''])
   \<and> Result (Suc 0) testManager ((testWriter None)\<lparr>buffer := [97]\<rparr>) (testWorld0 [0]) =
       Return (([], Some (Wrapf (New ''storage error'') ''error when flushing chunk %d of %s''
                           [ArgInt 0, ArgStr ''file''])),
               (testWriter None)\<lparr>currentPosition := 1,
                  indirectIndex := [\<lparr>Start = 0, Length = 1, Object = []\<rparr>]\<rparr>,
               \<lparr>written = [([97], ''k'')], failing = [0],
                pool = [Allocated 32, Allocated 1, Released 1]\<rparr>)
   \<and> (\<exists>w''. Write testManager
        ((testWriter None)\<lparr>totalLength := 2, currentPosition := 2,
                indirectIndex := [\<lparr>Start = 0, Length = 2, Object = []\<rparr>]\<rparr>)
        \<lparr>written = [([97, 0], ''k'')], failing = [0],
              pool = [Allocated 32, Allocated 2, Released 2]\<rparr> [98, 99] =
        Return ((2, None), w'',
          \<lparr>written = [([97, 0], ''k'')], failing = [0],
              pool = [Allocated 32, Allocated 2, Released 2]\<rparr>))
   \<and> Result (Suc 0) testManager
        ((testWriter None)\<lparr>totalLength := 2, currentPosition := 2,
                indirectIndex := [\<lparr>Start = 0, Length = 2, Object = []\<rparr>]\<rparr>)
        \<lparr>written = [([97, 0], ''k'')], failing = [0],
              pool = [Allocated 32, Allocated 2, Released 2]\<rparr> =
     Return (([], None),
             (testWriter None)\<lparr>totalLength := 2, currentPosition := 2,
                indirectIndex := [\<lparr>Start = 0, Length = 2, Object = []\<rparr>]\<rparr>,
             \<lparr>written = [([97, 0], ''k'')], failing = [0],
              pool = [Allocated 32, Allocated 2, Released 2]\<rparr>)"
proof -
  let ?w0 = "testWriter None"
  let ?err = "Wrapf (New ''storage error'') ''error when flushing chunk %d of %s''
                [ArgInt 0, ArgStr ''file'']"
  let ?w1 = "(testWriter None)\<lparr>totalLength := 2, currentPosition := 2,
                indirectIndex := [\<lparr>Start = 0, Length = 2, Object = []\<rparr>]\<rparr>"
  let ?x1 = "\<lparr>written = [([97 :: byte, 0], ''k'')], failing = [0],
              pool = [Allocated 32, Allocated 2, Released 2]\<rparr>"
  let ?wr = "(testWriter None)\<lparr>currentPosition := 1,
                  indirectIndex := [\<lparr>Start = 0, Length = 1, Object = []\<rparr>]\<rparr>"
  let ?xr = "\<lparr>written = [([97 :: byte], ''k'')], failing = [0],
                pool = [Allocated 32, Allocated 1, Released 1]\<rparr>"
  have loop: "writeLoop testManager (?w0\<lparr>totalLength := totalLength ?w0 + of_nat (length [97, 0 :: byte])\<rparr>)
                (testWorld0 [0]) [97]
              = Return (None, ?w0\<lparr>totalLength := 2, buffer := [97], splitter := Some (1, 0)\<rparr>,
                        testWorld0 [0])"
    by (simp add: test_defs)
  have fl: "flushBuffer testManager
              ((?w0\<lparr>totalLength := 2, buffer := [97], splitter := Some (1, 0)\<rparr>)
                 \<lparr>buffer := buffer (?w0\<lparr>totalLength := 2, buffer := [97], splitter := Some (1, 0)\<rparr>) @ [0],
                  splitter := Some (snd (ShouldSplit testManager (1, 0) 0))\<rparr>)
              (testWorld0 [0]) = (Some ?err, ?w1, ?x1)"
    by (simp add: test_defs)
  have sp: "splitter (?w0\<lparr>totalLength := 2, buffer := [97], splitter := Some (1, 0)\<rparr>) = Some (1, 0)
            \<and> fst (ShouldSplit testManager (1, 0) 0)"
    by (simp add: test_defs)
  have h1: "(0 :: nat) = 0 \<and> (\<exists>pre d post. [97, 0 :: byte] = pre @ d # post \<and>
        flushFailsAt testManager
          (?w0\<lparr>totalLength := totalLength ?w0 + of_nat (length [97, 0 :: byte])\<rparr>) (testWorld0 [0])
          pre d ?err ?w1 ?x1)"
  proof -
    have "flushFailsAt testManager
          (?w0\<lparr>totalLength := totalLength ?w0 + of_nat (length [97, 0 :: byte])\<rparr>) (testWorld0 [0])
          [97] 0 ?err ?w1 ?x1"
      unfolding flushFailsAt_def using loop sp fl by blast
    moreover have "[97, 0 :: byte] = [97] @ 0 # []" by simp
    ultimately show ?thesis by blast
  qed
  have h2: "maybeCompressedContentBytes (compressor (?w0\<lparr>buffer := [97, 0]\<rparr>)) []
              (buffer (?w0\<lparr>buffer := [97, 0]\<rparr>)) = ([97, 0], False, None)
        \<and> WriteContent testManager [97, 0] (prefix (?w0\<lparr>buffer := [97, 0]\<rparr>))
            (snd (Allocate testManager (length (buffer (?w0\<lparr>buffer := [97, 0]\<rparr>))) (testWorld0 [0])))
            = (Inl (New ''storage error''),
               \<lparr>written = [([97, 0], ''k'')], failing = [0], pool = [Allocated 32, Allocated 2]\<rparr>)"
    by (simp add: test_defs)
  have h3: "(if buffer (?w0\<lparr>buffer := [97]\<rparr>) \<noteq> [] \<or> indirectIndex (?w0\<lparr>buffer := [97]\<rparr>) = []
             then flushBuffer testManager (?w0\<lparr>buffer := [97]\<rparr>) (testWorld0 [0])
             else (None, ?w0\<lparr>buffer := [97]\<rparr>, testWorld0 [0])) = (Some ?err, ?wr, ?xr)"
    by (simp add: test_defs)
  have h4: "splitter ?w1 = Some (0, 0) \<and> neverSplits testManager (0, 0) [98, 99]"
    by (simp add: test_defs)
  have h5: "buffer ?w1 = [] \<and> length (indirectIndex ?w1) = 1"
    by (simp add: test_defs)
  have t1: "Write testManager ?w0 (testWorld0 [0]) [97, 0] = Return ((0, Some ?err), ?w1, ?x1)"
    using Write_keeps_no_error [where om = testManager and w = ?w0 and x = "testWorld0 [0]"
        and data = "[97, 0]" and n = 0 and err = ?err and w' = ?w1 and x' = ?x1, THEN conjunct1] h1
    by blast
  note t2 = Write_keeps_no_error [where om = testManager and w = "?w0\<lparr>buffer := [97, 0]\<rparr>"
      and x = "testWorld0 [0]" and payload = "[97, 0]" and isCompressed = False
      and e = "New ''storage error''"
      and ?x2.0 = "\<lparr>written = [([97, 0], ''k'')], failing = [0], pool = [Allocated 32, Allocated 2]\<rparr>",
      THEN conjunct2, THEN conjunct1, rule_format, OF h2]
  note t3 = Write_keeps_no_error [where om = testManager and w = "?w0\<lparr>buffer := [97]\<rparr>"
      and x = "testWorld0 [0]" and err' = ?err and ?w1.0 = ?wr and ?x1.0 = ?xr and k = 0,
      THEN conjunct2, THEN conjunct2, THEN conjunct1, rule_format, OF h3]
  note t4 = Write_keeps_no_error [where om = testManager and w = ?w1 and x = ?x1
      and data = "[98, 99]" and sp = "(0, 0)",
      THEN conjunct2, THEN conjunct2, THEN conjunct2, THEN conjunct1, rule_format, OF h4]
  note t5 = Write_keeps_no_error [where om = testManager and w = ?w1 and x = ?x1 and k = 0,
      THEN conjunct2, THEN conjunct2, THEN conjunct2, THEN conjunct2, rule_format, OF h5]
  from t1 t2 t3 t4 t5 show ?thesis
    by (simp add: test_defs)
qed

end
